theory Spec2Isabelle
  imports Complex_Main "HOL-Library.Word"
begin

unbundle bit_operations_syntax

section \<open>Machine types\<close>

type_synonym u8 = "8 word"
type_synonym u16 = "16 word"
type_synonym u32 = "32 word"
type_synonym s16 = "16 word"
type_synonym s32 = "32 word"

section \<open>Gamma table generator (adjustGammaTableForGba)\<close>

text \<open>
  The generator works on single-precision floats through \<^verbatim>\<open>powf\<close>, \<^verbatim>\<open>lroundf\<close> and
  the float operators of C. None of them is defined by the repository, so the model takes
  a float type \<open>'f\<close> and its primitives as a parameter: whatever is proved holds for every
  implementation of them. \<open>f_of_int\<close> stands for the conversion of an integer to float
  (the cast \<^verbatim>\<open>(float)i\<close>, the promoted literal \<^verbatim>\<open>255\<close> and the literal \<^verbatim>\<open>1.f\<close>);
  \<open>f_lroundf\<close> returns the 32-bit \<^verbatim>\<open>long\<close> of the target.
\<close>

record 'f float_ops =
  f_of_int :: "int \<Rightarrow> 'f"
  f_add :: "'f \<Rightarrow> 'f \<Rightarrow> 'f"
  f_mul :: "'f \<Rightarrow> 'f \<Rightarrow> 'f"
  f_div :: "'f \<Rightarrow> 'f \<Rightarrow> 'f"
  f_powf :: "'f \<Rightarrow> 'f \<Rightarrow> 'f"
  f_lroundf :: "'f \<Rightarrow> s32"

text \<open>The fields of \<^verbatim>\<open>g_oafConfig\<close> that this file reads.\<close>

record 'f OafConfig =
  gbaGamma :: "'f"
  lcdGamma :: "'f"
  contrast :: "'f"
  brightness :: "'f"
  scaler :: u8

text \<open>
  Modelled from the spec: \<^verbatim>\<open>clamp_s32\<close> (util.h) is not under src/. The spec says
  "clamp to [0,255]": the signed 32-bit value is limited to the closed range between the
  two bounds.
\<close>

definition clamp_s32 :: "s32 \<Rightarrow> s32 \<Rightarrow> s32 \<Rightarrow> s32" where
  "clamp_s32 x lo hi = (if sint x < sint lo then lo else if sint hi < sint x then hi else x)"

text \<open>
  One pass of the loop body for index \<open>i\<close>: the word stored into \<^verbatim>\<open>color_lut_data\<close>.
\<close>

definition lut_word :: "'f float_ops \<Rightarrow> 'f \<Rightarrow> 'f \<Rightarrow> 'f \<Rightarrow> 'f \<Rightarrow> nat \<Rightarrow> u32" where
  "lut_word ops targetGamma lcdGammaInv brightnessC contrastInTargetGamma i =
     (let adjusted = f_powf ops
            (f_add ops (f_div ops (f_of_int ops (int i)) (f_of_int ops 255)) brightnessC)
            targetGamma;
          res = clamp_s32
            (f_lroundf ops
               (f_mul ops
                  (f_powf ops (f_mul ops contrastInTargetGamma adjusted) lcdGammaInv)
                  (f_of_int ops 255)))
            0 255
      in push_bit 16 res OR push_bit 8 res OR res)"

text \<open>
  The loop \<^verbatim>\<open>for(u32 i = 0; i < 256; i++)\<close>. The register is write-only and advances
  by itself, so the effect of the loop is the sequence of words stored, in program order.
  The index never leaves \<open>[0, 256]\<close>, so it is a \<open>nat\<close>.
\<close>

function lut_loop :: "'f float_ops \<Rightarrow> 'f \<Rightarrow> 'f \<Rightarrow> 'f \<Rightarrow> 'f \<Rightarrow> nat \<Rightarrow> u32 list" where
  "lut_loop ops targetGamma lcdGammaInv brightnessC contrastInTargetGamma i =
     (if i < 256
      then lut_word ops targetGamma lcdGammaInv brightnessC contrastInTargetGamma i
             # lut_loop ops targetGamma lcdGammaInv brightnessC contrastInTargetGamma (Suc i)
      else [])"
  by pat_completeness auto
termination
  by (relation "measure (\<lambda>(ops, tg, lg, b, c, i). 256 - i)") auto

definition adjustGammaTableForGba :: "'f float_ops \<Rightarrow> 'f OafConfig \<Rightarrow> u32 list" where
  "adjustGammaTableForGba ops cfg =
     (let targetGamma = gbaGamma cfg;
          lcdGammaInv = f_div ops (f_of_int ops 1) (lcdGamma cfg);
          contrastC = contrast cfg;
          brightnessC = f_div ops (brightness cfg) contrastC;
          contrastInTargetGamma = f_powf ops contrastC targetGamma
      in lut_loop ops targetGamma lcdGammaInv brightnessC contrastInTargetGamma 0)"

text \<open>The three colour channels of a stored word, and the byte above them.\<close>

definition lut_red :: "u32 \<Rightarrow> u32" where
  "lut_red w = drop_bit 16 w AND 0xFF"

definition lut_green :: "u32 \<Rightarrow> u32" where
  "lut_green w = drop_bit 8 w AND 0xFF"

definition lut_blue :: "u32 \<Rightarrow> u32" where
  "lut_blue w = w AND 0xFF"

text \<open>
  The value the specification gives for index \<open>i\<close>, written from its words:
  \<open>clamp(round(pow(pow(contrast, targetGamma) * pow(i/255 + brightness/contrast, targetGamma),
  1/lcdGamma) * 255), 0, 255)\<close>, on the four configured parameters.
\<close>

definition spec_gamma_value :: "'f float_ops \<Rightarrow> 'f OafConfig \<Rightarrow> nat \<Rightarrow> s32" where
  "spec_gamma_value ops cfg i =
     clamp_s32
       (f_lroundf ops
          (f_mul ops
             (f_powf ops
                (f_mul ops
                   (f_powf ops (contrast cfg) (gbaGamma cfg))
                   (f_powf ops
                      (f_add ops
                         (f_div ops (f_of_int ops (int i)) (f_of_int ops 255))
                         (f_div ops (brightness cfg) (contrast cfg)))
                      (gbaGamma cfg)))
                (f_div ops (f_of_int ops 1) (lcdGamma cfg)))
             (f_of_int ops 255)))
       0 255"




section \<open>Collaborators of the video pipeline\<close>

text \<open>
  \<^verbatim>\<open>Result\<close> is the error code type of the firmware. The code compares it with
  \<^verbatim>\<open>RES_OK\<close> and \<^verbatim>\<open>RES_FR_NO_FILE\<close> only; every other code is \<open>RES_OTHER n\<close>.
  \<^verbatim>\<open>KRes\<close> is the kernel's result type, compared with \<^verbatim>\<open>KRES_OK\<close> only.
\<close>

datatype Result = RES_OK | RES_FR_NO_FILE | RES_OTHER nat

datatype KRes = KRES_OK | KRES_OTHER nat

type_synonym KHandle = u32

text \<open>
  The macro values of the driver headers (lgycap.h, hid.h, gx.h, bitmap.h, config.h,
  mcu.h) are not under src/. They are parameters of the model, under their own names.
  \<^verbatim>\<open>result2String\<close> is the firmware's table of error texts.
\<close>

record hdr_consts =
  LGYCAP_SWIZZLE :: u32
  LGYCAP_ROT_NONE :: u32
  LGYCAP_FMT_A1BGR5 :: u32
  LGYCAP_HSCALE_EN :: u32
  LGYCAP_VSCALE_EN :: u32
  KEY_Y :: u32
  KEY_SELECT :: u32
  PPF_O_FMT :: "u32 \<Rightarrow> u32"
  PPF_I_FMT :: "u32 \<Rightarrow> u32"
  PPF_CROP_EN :: u32
  PPF_OUT_TILED :: u32
  GX_BGR8 :: u32
  GX_A1BGR5 :: u32
  BI_BITFIELDS :: u32
  SYS_MODEL_2DS :: u32
  OAF_SCREENSHOT_DIR :: string
  result2String :: "Result \<Rightarrow> string"

text \<open>
  \<^verbatim>\<open>PPF_DIM(w, h)\<close> packs a width and a height into one register word; the model keeps
  the pair.
\<close>

type_synonym ppf_dim = "nat \<times> nat"

definition PPF_DIM :: "nat \<Rightarrow> nat \<Rightarrow> ppf_dim" where
  "PPF_DIM wd ht = (wd, ht)"

text \<open>
  The addresses the code passes to the transfer engine: the capture texture at
  \<^verbatim>\<open>0x18200000\<close>, the GPU render buffer, and a byte offset into the buffer returned by
  \<^verbatim>\<open>GFX_getBuffer(GFX_LCD_TOP, GFX_SIDE_LEFT)\<close> (the frame buffer that is not displayed).
\<close>

datatype gx_addr = TEX_0x18200000 | GPU_RENDER_BUF_ADDR | TopLeftBuf nat

datatype LgyCapDev = LGYCAP_DEV_TOP | LGYCAP_DEV_BOT

datatype GfxBl = GFX_BL_TOP | GFX_BL_BOT

text \<open>The two GPU command lists of gpu\_cmd\_lists.h (an array and its \<^verbatim>\<open>sizeof\<close>).\<close>

datatype cmd_list = gbaGpuInitList | gbaGpuList2

record LgyCapCfg =
  cnt :: u32
  w :: nat
  h :: nat
  irq :: nat
  vLen :: nat
  vPatt :: u32
  vMatrix :: "s16 list"
  hLen :: nat
  hPatt :: u32
  hMatrix :: "s16 list"

text \<open>
  Every call of a collaborator that acts on the hardware, the kernel or the storage is
  an event of the trace; a trace is the list of events in program order. Pure reads
  (\<^verbatim>\<open>hidKeysHeld\<close>, \<^verbatim>\<open>hidKeysDown\<close>, \<^verbatim>\<open>MCU_getRtcTimeDate\<close>,
  \<^verbatim>\<open>MCU_getSystemModel\<close>) are inputs of the model. \<open>Call_fsQuickWrite\<close> carries
  the path, the memory it reads the file from, the size, and the result it returned.
\<close>

datatype event =
    Call_LGYCAP_init LgyCapDev LgyCapCfg
  | Call_LGYCAP_stop LgyCapDev
  | Call_LGYCAP_start LgyCapDev
  | Call_LGYCAP_deinit LgyCapDev
  | Call_waitForEvent KHandle
  | Call_clearEvent KHandle
  | Call_taskExit
  | Call_GX_processCommandList cmd_list
  | Call_GFX_waitForP3D
  | Call_GX_displayTransfer gx_addr ppf_dim gx_addr ppf_dim u32
  | Call_GFX_waitForPPF
  | Call_GFX_swapBuffers
  | Call_memcpy gx_addr "u8 list"
  | Call_fsQuickWrite string "nat \<Rightarrow> u8" u32 Result
  | Call_fsQuickRead string nat
  | Call_ee_printf string
  | Call_GFX_setForceBlack bool bool
  | Call_GFX_powerOffBacklight GfxBl
  | Call_patchGbaGpuCmdList u8
  | Call_createTask nat nat KHandle
  | Write_color_lut_data u32

section \<open>Storage\<close>

text \<open>
  Modelled from the spec: \<^verbatim>\<open>fsQuickRead\<close> (fsutil.h) is not under src/. The spec gives
  the storage collaborator as \<open>read_file(path, buffer, max_size) -> result\<close>, with
  "file not found" a distinguished result, and says of a failed read that the built-in
  contents of the buffer stay in effect. A path is absent, unreadable with an error code,
  or holds bytes. Reading an absent or unreadable file returns its code and leaves the
  buffer as it was; reading a file copies at most \<open>max_size\<close> of its bytes over the
  start of the buffer.
\<close>

datatype file_entry = NoFile | ReadFails Result | FileBytes "u8 list"

type_synonym storage = "string \<Rightarrow> file_entry"

definition fsQuickRead :: "storage \<Rightarrow> string \<Rightarrow> u8 list \<Rightarrow> nat \<Rightarrow> Result \<times> u8 list" where
  "fsQuickRead fs path buf sz =
     (case fs path of
        NoFile \<Rightarrow> (RES_FR_NO_FILE, buf)
      | ReadFails e \<Rightarrow> (e, buf)
      | FileBytes bs \<Rightarrow> (RES_OK, take sz bs @ drop (length (take sz bs)) buf))"

section \<open>Little-endian memory images\<close>

definition le16 :: "u16 \<Rightarrow> u8 list" where
  "le16 x = [ucast x, ucast (drop_bit 8 x)]"

definition le32 :: "u32 \<Rightarrow> u8 list" where
  "le32 x = [ucast x, ucast (drop_bit 8 x), ucast (drop_bit 16 x), ucast (drop_bit 24 x)]"

definition s16_of_bytes :: "u8 \<Rightarrow> u8 \<Rightarrow> s16" where
  "s16_of_bytes lo hi = ucast lo OR push_bit 8 (ucast hi)"

fun s16s_of_bytes :: "u8 list \<Rightarrow> s16 list" where
  "s16s_of_bytes (lo # hi # rest) = s16_of_bytes lo hi # s16s_of_bytes rest"
| "s16s_of_bytes rest = []"

definition bytes_of_s16s :: "s16 list \<Rightarrow> u8 list" where
  "bytes_of_s16s xs = concat (map le16 xs)"

text \<open>The 32-bit little-endian field at a byte offset of a memory region.\<close>

definition le32_at :: "(nat \<Rightarrow> u8) \<Rightarrow> nat \<Rightarrow> u32" where
  "le32_at mem a =
     ucast (mem a) OR push_bit 8 (ucast (mem (a + 1)))
       OR push_bit 16 (ucast (mem (a + 2))) OR push_bit 24 (ucast (mem (a + 3)))"

section \<open>Raster header of a screenshot\<close>

record BmpHeader =
  magic :: u16
  fileSize :: u32
  reserved :: u16
  reserved2 :: u16
  pixelOffset :: u32

record Bitmapinfoheader =
  headerSize :: u32
  width :: s32
  height :: s32
  colorPlanes :: u16
  bitsPerPixel :: u16
  compression :: u32
  imageSize :: u32
  xPixelsPerMeter :: s32
  yPixelsPerMeter :: s32
  colorsUsed :: u32
  colorsImportant :: u32

record BmpV1WithMasks =
  header :: BmpHeader
  dib :: Bitmapinfoheader
  rMask :: u32
  gMask :: u32
  bMask :: u32

text \<open>
  Modelled from the spec: the declaration of \<^verbatim>\<open>BmpV1WithMasks\<close> (arm11/bitmap.h) is
  not under src/. The spec lays the header out as a "fixed 14-byte generic raster header +
  fixed-size device-independent-bitmap header + 3x4-byte channel bit-masks"; the fields
  are those the initialiser in \<^verbatim>\<open>dumpFrameTex\<close> names, in that order, packed and
  little-endian. \<open>bmp_bytes\<close> is the memory image that \<^verbatim>\<open>memcpy\<close> copies, so its length
  is \<^verbatim>\<open>sizeof(bmpHeaders)\<close>, and \<open>sizeof_Bitmapinfoheader\<close> is the size of its middle
  part.
\<close>

definition bmp_header_bytes :: "BmpHeader \<Rightarrow> u8 list" where
  "bmp_header_bytes b =
     le16 (magic b) @ le32 (fileSize b) @ le16 (reserved b) @ le16 (reserved2 b)
       @ le32 (pixelOffset b)"

definition dib_bytes :: "Bitmapinfoheader \<Rightarrow> u8 list" where
  "dib_bytes d =
     le32 (headerSize d) @ le32 (width d) @ le32 (height d) @ le16 (colorPlanes d)
       @ le16 (bitsPerPixel d) @ le32 (compression d) @ le32 (imageSize d)
       @ le32 (xPixelsPerMeter d) @ le32 (yPixelsPerMeter d) @ le32 (colorsUsed d)
       @ le32 (colorsImportant d)"

definition bmp_bytes :: "BmpV1WithMasks \<Rightarrow> u8 list" where
  "bmp_bytes b =
     bmp_header_bytes (header b) @ dib_bytes (dib b)
       @ le32 (rMask b) @ le32 (gMask b) @ le32 (bMask b)"

definition sizeof_Bitmapinfoheader :: u32 where
  "sizeof_Bitmapinfoheader = 40"

text \<open>The fields of a header image in memory, read back at their offsets.\<close>

definition bmp_fileSize_field :: "(nat \<Rightarrow> u8) \<Rightarrow> u32" where
  "bmp_fileSize_field mem = le32_at mem 2"

definition bmp_pixelOffset_field :: "(nat \<Rightarrow> u8) \<Rightarrow> u32" where
  "bmp_pixelOffset_field mem = le32_at mem 10"

definition bmp_width_field :: "(nat \<Rightarrow> u8) \<Rightarrow> s32" where
  "bmp_width_field mem = le32_at mem 18"

definition bmp_height_field :: "(nat \<Rightarrow> u8) \<Rightarrow> s32" where
  "bmp_height_field mem = le32_at mem 22"

section \<open>Static storage of the translation unit\<close>

text \<open>
  Three function-local \<^verbatim>\<open>static\<close> objects outlive the calls that use them: \<^verbatim>\<open>inited\<close>
  of \<^verbatim>\<open>gbaGfxHandler\<close>, \<^verbatim>\<open>bmpHeaders\<close> of \<^verbatim>\<open>dumpFrameTex\<close> and \<^verbatim>\<open>matrix\<close> of
  \<^verbatim>\<open>setupFrameCapture\<close>. The model passes them as a record; \<open>initial_statics\<close> holds
  their initialisers, the state in which the program starts.
\<close>

record statics =
  inited :: bool
  bmpHeaders :: BmpV1WithMasks
  matrix :: "s16 list"

definition alignment :: u32 where
  "alignment = 0x80"

definition initial_bmpHeaders :: "hdr_consts \<Rightarrow> BmpV1WithMasks" where
  "initial_bmpHeaders K =
     \<lparr> header = \<lparr> magic = 0x4D42, fileSize = alignment + 240 * 160 * 2, reserved = 0,
                  reserved2 = 0, pixelOffset = alignment \<rparr>,
       dib = \<lparr> headerSize = sizeof_Bitmapinfoheader, width = 240, height = - 160,
               colorPlanes = 1, bitsPerPixel = 16, compression = BI_BITFIELDS K,
               imageSize = 240 * 160 * 2, xPixelsPerMeter = 0, yPixelsPerMeter = 0,
               colorsUsed = 0, colorsImportant = 0 \<rparr>,
       rMask = 0xF800, gMask = 0x07C0, bMask = 0x003E \<rparr>"

definition default_matrix :: "s16 list" where
  "default_matrix =
     [      0,       0,       0,       0,       0,       0,       0,       0,
            0,       0,       0,       0,       0,       0,       0,       0,
            0,  0x24B0,  0x4000,       0,  0x24B0,  0x4000,       0,       0,
       0x4000,  0x2000,       0,  0x4000,  0x2000,       0,       0,       0,
            0, - 0x4B0,       0,       0, - 0x4B0,       0,       0,       0,
            0,       0,       0,       0,       0,       0,       0,       0,

            0,       0,       0,       0,       0,       0,       0,       0,
            0,       0,       0,       0,       0,       0,       0,       0,
            0,       0,  0x24B0,       0,       0,  0x24B0,       0,       0,
       0x4000,  0x4000,  0x2000,  0x4000,  0x4000,  0x2000,       0,       0,
            0,       0, - 0x4B0,       0,       0, - 0x4B0,       0,       0,
            0,       0,       0,       0,       0,       0,       0,       0 ]"

definition initial_statics :: "hdr_consts \<Rightarrow> statics" where
  "initial_statics K =
     \<lparr> inited = False, bmpHeaders = initial_bmpHeaders K, matrix = default_matrix \<rparr>"

section \<open>Screenshot serializer (dumpFrameTex)\<close>

text \<open>
  What the environment answers during one pass of the task loop: the result of
  \<^verbatim>\<open>waitForEvent\<close>, the two key masks, and, for a screenshot, the bytes of the hidden
  frame buffer when the dump starts, the bytes the transfer engine produces, the clock and
  the result of \<^verbatim>\<open>fsQuickWrite\<close>.
\<close>

record RtcTimeDate =
  td_s :: nat
  td_min :: nat
  td_h :: nat
  td_d :: nat
  td_mon :: nat
  td_y :: nat

record sample =
  wait_res :: KRes
  keys_held :: u32
  keys_down :: u32
  tmpBuf0 :: "nat \<Rightarrow> u8"
  ppf_pixels :: "nat \<Rightarrow> u8"
  rtc :: RtcTimeDate
  write_res :: Result

text \<open>\<^verbatim>\<open>%0nX\<close> of \<^verbatim>\<open>ee_sprintf\<close>: upper-case hexadecimal, padded with zeros to \<open>n\<close> digits.\<close>

definition hex_digit :: "nat \<Rightarrow> char" where
  "hex_digit n = ''0123456789ABCDEF'' ! (n mod 16)"

function hex_str :: "nat \<Rightarrow> string" where
  "hex_str n = (if n < 16 then [hex_digit n] else hex_str (n div 16) @ [hex_digit n])"
  by pat_completeness auto
termination
  by (relation "measure (\<lambda>n. n)") auto

definition fmt_0X :: "nat \<Rightarrow> nat \<Rightarrow> string" where
  "fmt_0X n v = replicate (n - length (hex_str v)) (CHR ''0'') @ hex_str v"

definition screenshot_path :: "hdr_consts \<Rightarrow> RtcTimeDate \<Rightarrow> string" where
  "screenshot_path K td =
     OAF_SCREENSHOT_DIR K @ ''/'' @ fmt_0X 4 (td_y td + 0x2000) @ ''_'' @ fmt_0X 2 (td_mon td)
       @ ''_'' @ fmt_0X 2 (td_d td) @ ''_'' @ fmt_0X 2 (td_h td) @ ''_'' @ fmt_0X 2 (td_min td)
       @ ''_'' @ fmt_0X 2 (td_s td) @ ''.bmp''"

text \<open>\<^verbatim>\<open>memcpy\<close> of a byte list to a byte offset of a memory region.\<close>

definition mem_write :: "nat \<Rightarrow> u8 list \<Rightarrow> (nat \<Rightarrow> u8) \<Rightarrow> (nat \<Rightarrow> u8)" where
  "mem_write a bs mem = (\<lambda>k. if a \<le> k \<and> k < a + length bs then bs ! (k - a) else mem k)"

text \<open>
  Modelled from the spec: the transfer engine (gx.h) is not under src/. With a 16-bit
  output format it stores the "raw 16-bit-per-pixel payload" of \<open>width*height*2\<close> bytes
  at the destination address.
\<close>

definition ppf_output :: "nat \<Rightarrow> ppf_dim \<Rightarrow> (nat \<Rightarrow> u8) \<Rightarrow> (nat \<Rightarrow> u8) \<Rightarrow> (nat \<Rightarrow> u8)" where
  "ppf_output a dm px mem =
     (\<lambda>k. if a \<le> k \<and> k < a + fst dm * snd dm * 2 then px (k - a) else mem k)"

text \<open>
  \<^verbatim>\<open>tmpBuf + (alignment / 4)\<close> on a \<^verbatim>\<open>u32*\<close>: the byte offset of the destination.
\<close>

definition payload_offset :: nat where
  "payload_offset = 4 * (unat alignment div 4)"

text \<open>
  The function returns the write's result and leaves \<^verbatim>\<open>bmpHeaders\<close> updated. The
  transfer is started before the header is copied and awaited after it; the memory
  written to storage is the buffer after both.
\<close>

definition dumpFrameTex ::
  "hdr_consts \<Rightarrow> 'f OafConfig \<Rightarrow> BmpV1WithMasks \<Rightarrow> sample \<Rightarrow> Result \<times> BmpV1WithMasks \<times> event list" where
  "dumpFrameTex K cfg bh x =
     (let (outDim, fSize, bh') =
            (if 1 < scaler cfg
             then (PPF_DIM 360 240, alignment + 360 * 240 * 2,
                   bh\<lparr> header := (header bh)\<lparr> fileSize := alignment + 360 * 240 * 2 \<rparr>,
                       dib := (dib bh)\<lparr> width := 360, height := - 240,
                                         imageSize := 360 * 240 * 2 \<rparr> \<rparr>)
             else (PPF_DIM 240 160, alignment + 240 * 160 * 2, bh));
          buf1 = ppf_output payload_offset outDim (ppf_pixels x) (tmpBuf0 x);
          buf2 = mem_write 0 (bmp_bytes bh') buf1;
          fn = screenshot_path K (rtc x);
          res = write_res x
      in (res, bh',
          [Call_LGYCAP_stop LGYCAP_DEV_TOP,
           Call_GX_displayTransfer TEX_0x18200000 (PPF_DIM 512 240) (TopLeftBuf payload_offset)
             outDim (PPF_O_FMT K (GX_A1BGR5 K) OR PPF_I_FMT K (GX_A1BGR5 K) OR PPF_CROP_EN K),
           Call_memcpy (TopLeftBuf 0) (bmp_bytes bh'),
           Call_GFX_waitForPPF,
           Call_fsQuickWrite fn buf2 fSize res,
           Call_LGYCAP_start LGYCAP_DEV_TOP]))"

section \<open>Frame pipeline task (gbaGfxHandler)\<close>

text \<open>
  One pass of the body of \<^verbatim>\<open>while(1)\<close> after a successful wait: the command list is
  chosen by \<^verbatim>\<open>inited\<close>, the frame is rendered, transferred and presented, and the
  screenshot trigger is tested. The result of \<^verbatim>\<open>dumpFrameTex\<close> is dropped, as in the
  code.
\<close>

definition gfx_pass ::
  "hdr_consts \<Rightarrow> 'f OafConfig \<Rightarrow> KHandle \<Rightarrow> statics \<Rightarrow> sample \<Rightarrow> statics \<times> event list" where
  "gfx_pass K cfg ev st x =
     (let (st1, lst) =
            (if inited st = False then (st\<lparr> inited := True \<rparr>, gbaGpuInitList)
             else (st, gbaGpuList2));
          frame =
            [Call_clearEvent ev,
             Call_GX_processCommandList lst,
             Call_GFX_waitForP3D,
             Call_GX_displayTransfer GPU_RENDER_BUF_ADDR (PPF_DIM 240 400) (TopLeftBuf 0)
               (PPF_DIM 240 400) (PPF_O_FMT K (GX_BGR8 K) OR PPF_I_FMT K (GX_BGR8 K)),
             Call_GFX_waitForPPF,
             Call_GFX_swapBuffers]
      in if keys_held x = (KEY_Y K OR KEY_SELECT K) \<and> keys_down x \<noteq> 0
         then (case dumpFrameTex K cfg (bmpHeaders st1) x of
                 (res, bh, evs) \<Rightarrow> (st1\<lparr> bmpHeaders := bh \<rparr>, frame @ evs))
         else (st1, frame))"

text \<open>
  The task loop. Each element of the list is what the environment answers during one
  pass; the loop leaves through \<^verbatim>\<open>break\<close> when the wait fails and then calls
  \<^verbatim>\<open>taskExit\<close>. When the list ends the task is blocked in \<^verbatim>\<open>waitForEvent\<close>: the
  trace is the behaviour observed so far.
\<close>

fun gbaGfxHandler ::
  "hdr_consts \<Rightarrow> 'f OafConfig \<Rightarrow> KHandle \<Rightarrow> statics \<Rightarrow> sample list \<Rightarrow> statics \<times> event list" where
  "gbaGfxHandler K cfg ev st [] = (st, [Call_waitForEvent ev])"
| "gbaGfxHandler K cfg ev st (x # xs) =
     (if wait_res x \<noteq> KRES_OK then (st, [Call_waitForEvent ev, Call_taskExit])
      else (case gfx_pass K cfg ev st x of
              (st', evs) \<Rightarrow>
                (case gbaGfxHandler K cfg ev st' xs of
                   (st'', rest) \<Rightarrow> (st'', Call_waitForEvent ev # evs @ rest))))"

section \<open>Capture configurator (setupFrameCapture)\<close>

definition setupFrameCapture ::
  "hdr_consts \<Rightarrow> u8 \<Rightarrow> storage \<Rightarrow> KHandle \<Rightarrow> statics \<Rightarrow> KHandle \<times> statics \<times> event list" where
  "setupFrameCapture K sc fs hnd st =
     (let is240x160 = (sc < 2);
          (res, mem) = fsQuickRead fs ''gba_scaler_matrix.bin'' (bytes_of_s16s (matrix st))
                         (12 * 8 * 2);
          m = s16s_of_bytes mem;
          report =
            (if res \<noteq> RES_OK \<and> res \<noteq> RES_FR_NO_FILE
             then [Call_ee_printf (''Failed to load hardware scaling matrix: ''
                                     @ result2String K res @ [CHR 0x0A])]
             else []);
          gbaCfg =
            \<lparr> cnt = LGYCAP_SWIZZLE K OR LGYCAP_ROT_NONE K OR LGYCAP_FMT_A1BGR5 K
                      OR (if is240x160 then 0 else LGYCAP_HSCALE_EN K OR LGYCAP_VSCALE_EN K),
              w = (if is240x160 then 240 else 360),
              h = (if is240x160 then 160 else 240),
              irq = 0,
              vLen = 6,
              vPatt = 0x1B,
              vMatrix = take (6 * 8) m,
              hLen = 6,
              hPatt = 0x1B,
              hMatrix = take (6 * 8) (drop (6 * 8) m) \<rparr>
      in (hnd, st\<lparr> matrix := m \<rparr>,
          [Call_fsQuickRead ''gba_scaler_matrix.bin'' (12 * 8 * 2)] @ report
            @ [Call_LGYCAP_init LGYCAP_DEV_TOP gbaCfg]))"

section \<open>Pipeline lifecycle (OAF\_videoInit, OAF\_videoExit)\<close>

text \<open>
  \<open>ndebug\<close> is the build flag \<^verbatim>\<open>NDEBUG\<close>, \<open>model\<close> the answer of
  \<^verbatim>\<open>MCU_getSystemModel\<close>, \<open>hnd\<close> the handle \<^verbatim>\<open>LGYCAP_init\<close> returns and \<open>fb\<close> the
  bytes of the hidden frame buffer. The task is created with stack size \<^verbatim>\<open>0x800\<close> and
  priority 3 and runs \<open>gbaGfxHandler\<close> on its own trace.
\<close>

definition OAF_videoInit ::
  "hdr_consts \<Rightarrow> bool \<Rightarrow> 'f float_ops \<Rightarrow> 'f OafConfig \<Rightarrow> storage \<Rightarrow> u32 \<Rightarrow> KHandle \<Rightarrow> u8 list
     \<Rightarrow> statics \<Rightarrow> KHandle \<times> statics \<times> event list" where
  "OAF_videoInit K ndebug ops cfg fs model hnd fb st =
     (let power =
            (if ndebug
             then Call_GFX_setForceBlack False True
                    # (if model \<noteq> SYS_MODEL_2DS K then [Call_GFX_powerOffBacklight GFX_BL_BOT]
                       else [])
             else []);
          sc = scaler cfg;
          (frameReadyEvent, st', capture) = setupFrameCapture K sc fs hnd st;
          task = [Call_patchGbaGpuCmdList sc, Call_createTask 0x800 3 frameReadyEvent];
          gamma = map Write_color_lut_data (adjustGammaTableForGba ops cfg);
          border =
            (if sc = 0
             then Call_fsQuickRead ''border.bgr'' (400 * 240 * 3)
                    # (if fst (fsQuickRead fs ''border.bgr'' fb (400 * 240 * 3)) = RES_OK
                       then [Call_GX_displayTransfer (TopLeftBuf 0) (PPF_DIM 240 400)
                               GPU_RENDER_BUF_ADDR (PPF_DIM 240 400)
                               (PPF_O_FMT K (GX_BGR8 K) OR PPF_I_FMT K (GX_BGR8 K)
                                  OR PPF_OUT_TILED K),
                             Call_GFX_waitForPPF]
                       else [])
             else [])
      in (frameReadyEvent, st', power @ capture @ task @ gamma @ border))"

definition OAF_videoExit :: "event list" where
  "OAF_videoExit = [Call_LGYCAP_deinit LGYCAP_DEV_TOP]"

section \<open>Observations on traces\<close>

text \<open>The configurations handed to \<^verbatim>\<open>LGYCAP_init\<close>, in order.\<close>

fun lgycap_init_cfgs :: "event list \<Rightarrow> LgyCapCfg list" where
  "lgycap_init_cfgs [] = []"
| "lgycap_init_cfgs (Call_LGYCAP_init dev c # es) = c # lgycap_init_cfgs es"
| "lgycap_init_cfgs (e # es) = lgycap_init_cfgs es"

text \<open>The texts logged through \<^verbatim>\<open>ee_printf\<close>, in order.\<close>

fun printed :: "event list \<Rightarrow> string list" where
  "printed [] = []"
| "printed (Call_ee_printf t # es) = t # printed es"
| "printed (e # es) = printed es"

text \<open>
  A scaling direction is enabled in a configuration when its enable bit is set in
  \<^verbatim>\<open>cnt\<close>. The enable bits mean something only when they are bits of their own: not
  zero, and not part of the flags the configuration always carries.
\<close>

definition hscale_enabled :: "hdr_consts \<Rightarrow> LgyCapCfg \<Rightarrow> bool" where
  "hscale_enabled K c = (cnt c AND LGYCAP_HSCALE_EN K \<noteq> 0)"

definition vscale_enabled :: "hdr_consts \<Rightarrow> LgyCapCfg \<Rightarrow> bool" where
  "vscale_enabled K c = (cnt c AND LGYCAP_VSCALE_EN K \<noteq> 0)"

definition scale_bits_own :: "hdr_consts \<Rightarrow> bool" where
  "scale_bits_own K =
     (LGYCAP_HSCALE_EN K \<noteq> 0 \<and> LGYCAP_VSCALE_EN K \<noteq> 0
      \<and> (LGYCAP_SWIZZLE K OR LGYCAP_ROT_NONE K OR LGYCAP_FMT_A1BGR5 K)
            AND (LGYCAP_HSCALE_EN K OR LGYCAP_VSCALE_EN K) = 0)"

text \<open>The command lists submitted to \<^verbatim>\<open>GX_processCommandList\<close>, in order.\<close>

fun cmd_lists :: "event list \<Rightarrow> cmd_list list" where
  "cmd_lists [] = []"
| "cmd_lists (Call_GX_processCommandList l # es) = l # cmd_lists es"
| "cmd_lists (e # es) = cmd_lists es"

text \<open>The frame-ready signals a run processes: the passes before the first failed wait.\<close>

definition processed :: "sample list \<Rightarrow> sample list" where
  "processed xs = takeWhile (\<lambda>x. wait_res x = KRES_OK) xs"

text \<open>
  The capture unit and the storage as a screenshot sees them: the unit is stopped, the
  capture texture is transferred out, a file is written with some result, the unit is
  started.
\<close>

datatype dump_step = Capture_stopped | Frame_transferred | File_written Result | Capture_started

fun dump_steps :: "event list \<Rightarrow> dump_step list" where
  "dump_steps [] = []"
| "dump_steps (Call_LGYCAP_stop LGYCAP_DEV_TOP # es) = Capture_stopped # dump_steps es"
| "dump_steps (Call_GX_displayTransfer TEX_0x18200000 sd dst dm fl # es) =
     Frame_transferred # dump_steps es"
| "dump_steps (Call_fsQuickWrite fn mem n r # es) = File_written r # dump_steps es"
| "dump_steps (Call_LGYCAP_start LGYCAP_DEV_TOP # es) = Capture_started # dump_steps es"
| "dump_steps (e # es) = dump_steps es"

definition dump_invoked :: "event list \<Rightarrow> bool" where
  "dump_invoked es = (dump_steps es \<noteq> [])"

definition triggered :: "hdr_consts \<Rightarrow> sample \<Rightarrow> bool" where
  "triggered K x = (keys_held x = (KEY_Y K OR KEY_SELECT K) \<and> keys_down x \<noteq> 0)"

text \<open>A trace with the results of the storage writes blanked.\<close>

fun forget_write_res :: "event \<Rightarrow> event" where
  "forget_write_res (Call_fsQuickWrite fn mem n r) = Call_fsQuickWrite fn mem n RES_OK"
| "forget_write_res e = e"

text \<open>
  The files a trace leaves on storage: the memory and the size of every write that
  returned \<^verbatim>\<open>RES_OK\<close>.
\<close>

fun written_files :: "event list \<Rightarrow> ((nat \<Rightarrow> u8) \<times> u32) list" where
  "written_files [] = []"
| "written_files (Call_fsQuickWrite fn mem n RES_OK # es) = (mem, n) # written_files es"
| "written_files (e # es) = written_files es"

text \<open>
  The byte ranges (start, length) of the hidden frame buffer that a trace writes by
  \<^verbatim>\<open>memcpy\<close>, and by transfers out of the capture texture (two bytes a pixel).
\<close>

fun memcpy_ranges :: "event list \<Rightarrow> (nat \<times> nat) list" where
  "memcpy_ranges [] = []"
| "memcpy_ranges (Call_memcpy (TopLeftBuf a) bs # es) = (a, length bs) # memcpy_ranges es"
| "memcpy_ranges (e # es) = memcpy_ranges es"

fun tex_transfer_ranges :: "event list \<Rightarrow> (nat \<times> nat) list" where
  "tex_transfer_ranges [] = []"
| "tex_transfer_ranges (Call_GX_displayTransfer TEX_0x18200000 sd (TopLeftBuf a) dm fl # es) =
     (a, fst dm * snd dm * 2) # tex_transfer_ranges es"
| "tex_transfer_ranges (e # es) = tex_transfer_ranges es"

text \<open>
  The reads of the border image a trace attempts, and the flags of its transfers into
  the GPU render buffer.
\<close>

fun border_reads :: "event list \<Rightarrow> nat list" where
  "border_reads [] = []"
| "border_reads (Call_fsQuickRead path n # es) =
     (if path = ''border.bgr'' then n # border_reads es else border_reads es)"
| "border_reads (e # es) = border_reads es"

fun render_buf_transfers :: "event list \<Rightarrow> u32 list" where
  "render_buf_transfers [] = []"
| "render_buf_transfers (Call_GX_displayTransfer src sd GPU_RENDER_BUF_ADDR dm fl # es) =
     fl # render_buf_transfers es"
| "render_buf_transfers (e # es) = render_buf_transfers es"

section \<open>Concrete inputs\<close>

text \<open>
  One assignment of the header constants (the enable bits of the capture unit are bits
  1 and 2, \<^verbatim>\<open>KEY_SELECT\<close> is bit 2 and \<^verbatim>\<open>KEY_Y\<close> bit 11), integer arithmetic in place
  of the float primitives, a neutral configuration for each scaler mode, three storages
  and a family of input samples. The theorems below are applied to them.
\<close>

definition ex_consts :: hdr_consts where
  "ex_consts =
     \<lparr> LGYCAP_SWIZZLE = 0x1000, LGYCAP_ROT_NONE = 0, LGYCAP_FMT_A1BGR5 = 0x200,
       LGYCAP_HSCALE_EN = 4, LGYCAP_VSCALE_EN = 2, KEY_Y = 0x800, KEY_SELECT = 4,
       PPF_O_FMT = (\<lambda>f. push_bit 12 f), PPF_I_FMT = (\<lambda>f. push_bit 8 f),
       PPF_CROP_EN = 4, PPF_OUT_TILED = 2, GX_BGR8 = 1, GX_A1BGR5 = 3,
       BI_BITFIELDS = 3, SYS_MODEL_2DS = 3, OAF_SCREENSHOT_DIR = ''sdmc:/screenshots'',
       result2String = (\<lambda>r. ''Disk error'') \<rparr>"

definition ex_float_ops :: "int float_ops" where
  "ex_float_ops =
     \<lparr> f_of_int = (\<lambda>n. n), f_add = (\<lambda>a b. a + b), f_mul = (\<lambda>a b. a * b),
       f_div = (\<lambda>a b. a div b), f_powf = (\<lambda>a b. a ^ nat b),
       f_lroundf = (\<lambda>a. word_of_int a) \<rparr>"

definition ex_cfg :: "u8 \<Rightarrow> int OafConfig" where
  "ex_cfg sc = \<lparr> gbaGamma = 1, lcdGamma = 1, contrast = 1, brightness = 0, scaler = sc \<rparr>"

definition ex_no_files :: storage where
  "ex_no_files = (\<lambda>path. NoFile)"

definition ex_bad_matrix_file :: storage where
  "ex_bad_matrix_file =
     (\<lambda>path. if path = ''gba_scaler_matrix.bin'' then ReadFails (RES_OTHER 8) else NoFile)"

definition ex_border_file :: storage where
  "ex_border_file = (\<lambda>path. if path = ''border.bgr'' then FileBytes [1, 2, 3] else NoFile)"

definition ex_sample :: "u32 \<Rightarrow> u32 \<Rightarrow> Result \<Rightarrow> sample" where
  "ex_sample held down r =
     \<lparr> wait_res = KRES_OK, keys_held = held, keys_down = down, tmpBuf0 = (\<lambda>k. 0),
       ppf_pixels = (\<lambda>k. of_nat k),
       rtc = \<lparr> td_s = 0x56, td_min = 0x34, td_h = 0x12, td_d = 0x02, td_mon = 0x11,
               td_y = 0x26 \<rparr>,
       write_res = r \<rparr>"




section \<open>Properties of the gamma table generator\<close>

declare lut_loop.simps [simp del]
declare hex_str.simps [simp del]

lemma clamp_s32_range: "0 \<le> sint (clamp_s32 x 0 255) \<and> sint (clamp_s32 x 0 255) \<le> 255"
  by (simp add: clamp_s32_def)

lemma s32_small:
  fixes x :: s32
  assumes "0 \<le> sint x" and "sint x \<le> 255"
  shows "x \<le> 255"
proof -
  have "take_bit 32 (sint x) = sint x"
    using assms by (intro take_bit_int_eq_self) simp_all
  then have "uint x = sint x" using uint_sint[of x] by simp
  then have "uint x \<le> 255" using assms(2) by simp
  then show ?thesis by (simp add: word_le_def)
qed

lemma clamp_s32_le: "clamp_s32 x 0 255 \<le> 255"
  using clamp_s32_range[of x] s32_small by blast

lemma byte_bits:
  fixes r :: u32
  assumes "r \<le> 255" and "bit r n"
  shows "n < 8"
proof -
  have "r < 2 ^ 8" using assms(1) by (simp add: word_less_nat_alt word_le_nat_alt)
  then have m: "r AND mask 8 = r" by (rule less_mask_eq)
  have "bit (r AND mask 8) n" using assms(2) by (simp only: m)
  then show "n < 8" by (simp only: bit_and_iff bit_mask_iff)
qed

lemma mask8: "(255::u32) = mask 8"
  by (simp add: mask_eq_exp_minus_1)

lemma packed_channels:
  fixes r :: u32
  assumes "r \<le> 255"
  shows "lut_red (push_bit 16 r OR push_bit 8 r OR r) = r"
    and "lut_green (push_bit 16 r OR push_bit 8 r OR r) = r"
    and "lut_blue (push_bit 16 r OR push_bit 8 r OR r) = r"
    and "drop_bit 24 (push_bit 16 r OR push_bit 8 r OR r) = 0"
proof -
  have hb: "\<And>n. bit r n \<Longrightarrow> n < 8" using assms by (rule byte_bits)
  show "lut_red (push_bit 16 r OR push_bit 8 r OR r) = r"
    unfolding lut_red_def mask8 by (rule bit_eqI) (auto simp: bit_simps dest: hb)
  show "lut_green (push_bit 16 r OR push_bit 8 r OR r) = r"
    unfolding lut_green_def mask8 by (rule bit_eqI) (auto simp: bit_simps dest: hb)
  show "lut_blue (push_bit 16 r OR push_bit 8 r OR r) = r"
    unfolding lut_blue_def mask8 by (rule bit_eqI) (auto simp: bit_simps dest: hb)
  show "drop_bit 24 (push_bit 16 r OR push_bit 8 r OR r) = 0"
    by (rule bit_eqI) (auto simp: bit_simps dest: hb)
qed

lemma lut_loop_eq:
  "i \<le> 256 \<Longrightarrow> lut_loop ops tg lg b c i = map (lut_word ops tg lg b c) [i..<256]"
proof (induction ops tg lg b c i rule: lut_loop.induct)
  case (1 ops tg lg b c i)
  show ?case
  proof (cases "i < 256")
    case True
    then have "lut_loop ops tg lg b c (Suc i) = map (lut_word ops tg lg b c) [Suc i..<256]"
      using "1.IH" by simp
    moreover have "[i..<256] = i # [Suc i..<256]"
      using True by (rule upt_conv_Cons)
    ultimately show ?thesis
      using True by (subst lut_loop.simps) simp
  next
    case False
    with "1.prems" have "i = 256" by simp
    then show ?thesis by (subst lut_loop.simps) simp
  qed
qed

lemma adjustGammaTableForGba_eq:
  "adjustGammaTableForGba ops cfg =
     map (\<lambda>i. push_bit 16 (spec_gamma_value ops cfg i) OR push_bit 8 (spec_gamma_value ops cfg i)
                 OR spec_gamma_value ops cfg i) [0..<256]"
  unfolding adjustGammaTableForGba_def Let_def
  by (subst lut_loop_eq) (simp_all add: lut_word_def spec_gamma_value_def Let_def del: upt_rec_numeral)

lemma adjustGammaTableForGba_nth:
  assumes "i < 256"
  shows "adjustGammaTableForGba ops cfg ! i =
     push_bit 16 (spec_gamma_value ops cfg i) OR push_bit 8 (spec_gamma_value ops cfg i)
       OR spec_gamma_value ops cfg i"
  unfolding adjustGammaTableForGba_eq using assms by (simp del: upt_rec_numeral)

lemma length_adjustGammaTableForGba: "length (adjustGammaTableForGba ops cfg) = 256"
  unfolding adjustGammaTableForGba_eq by (simp del: upt_rec_numeral)

lemma spec_gamma_value_le: "spec_gamma_value ops cfg i \<le> 255"
  unfolding spec_gamma_value_def by (rule clamp_s32_le)


text \<open>
  Claim C1. For every index \<open>i\<close> in \<open>[0, 255]\<close> the generator stores, as its \<open>i\<close>-th
  write (the writes are in increasing index order: the table has 256 entries and entry
  \<open>i\<close> belongs to index \<open>i\<close>), the packed word whose red, green and blue bytes all equal
  \<open>clamp(round(pow(pow(contrast, targetGamma) * pow(i/255 + brightness/contrast,
  targetGamma), 1/lcdGamma) * 255), 0, 255)\<close>, and whose top byte is zero, for all four
  parameters and for every implementation of the float primitives.
\<close>

theorem C1_gamma_table_entries:
  "length (adjustGammaTableForGba ops cfg) = 256 \<and>
   (\<forall>i<256.
      lut_red (adjustGammaTableForGba ops cfg ! i) = spec_gamma_value ops cfg i \<and>
      lut_green (adjustGammaTableForGba ops cfg ! i) = spec_gamma_value ops cfg i \<and>
      lut_blue (adjustGammaTableForGba ops cfg ! i) = spec_gamma_value ops cfg i \<and>
      drop_bit 24 (adjustGammaTableForGba ops cfg ! i) = 0)"
proof (intro conjI allI impI)
  show "length (adjustGammaTableForGba ops cfg) = 256"
    by (rule length_adjustGammaTableForGba)
next
  fix i :: nat
  assume i: "i < 256"
  note nth = adjustGammaTableForGba_nth [OF i, of ops cfg]
  note ch = packed_channels [OF spec_gamma_value_le, of ops cfg i]
  show "lut_red (adjustGammaTableForGba ops cfg ! i) = spec_gamma_value ops cfg i"
    by (simp only: nth ch)
  show "lut_green (adjustGammaTableForGba ops cfg ! i) = spec_gamma_value ops cfg i"
    by (simp only: nth ch)
  show "lut_blue (adjustGammaTableForGba ops cfg ! i) = spec_gamma_value ops cfg i"
    by (simp only: nth ch)
  show "drop_bit 24 (adjustGammaTableForGba ops cfg ! i) = 0"
    by (simp only: nth ch)
qed

theorem C1_gamma_table_entries_witness:
  "length (adjustGammaTableForGba ex_float_ops (ex_cfg 0)) = 256 \<and>
   lut_red (adjustGammaTableForGba ex_float_ops (ex_cfg 0) ! 255) = 255 \<and>
   lut_green (adjustGammaTableForGba ex_float_ops (ex_cfg 0) ! 255) = 255 \<and>
   lut_blue (adjustGammaTableForGba ex_float_ops (ex_cfg 0) ! 255) = 255 \<and>
   lut_blue (adjustGammaTableForGba ex_float_ops (ex_cfg 0) ! 7) = 0"
proof -
  have a: "spec_gamma_value ex_float_ops (ex_cfg 0) 255 = 255"
    by (simp add: spec_gamma_value_def ex_float_ops_def ex_cfg_def clamp_s32_def)
  have b: "spec_gamma_value ex_float_ops (ex_cfg 0) 7 = 0"
    by (simp add: spec_gamma_value_def ex_float_ops_def ex_cfg_def clamp_s32_def)
  have c: "(255::nat) < 256" "(7::nat) < 256" by simp_all
  show ?thesis
    using C1_gamma_table_entries [of ex_float_ops "ex_cfg 0"] a b c by metis
qed
















section \<open>Properties of the capture configurator\<close>

lemma u8_less_2: "(sc :: u8) < 2 \<longleftrightarrow> sc = 0 \<or> sc = 1"
proof
  assume "sc < 2"
  then have "unat sc < 2" by (simp add: word_less_nat_alt)
  then have "unat sc = 0 \<or> unat sc = 1" by arith
  then show "sc = 0 \<or> sc = 1" by (auto simp: word_unat_eq_iff)
next
  assume "sc = 0 \<or> sc = 1"
  then show "sc < 2" by auto
qed

lemma setupFrameCapture_cfgs:
  "lgycap_init_cfgs (snd (snd (setupFrameCapture K sc fs hnd st))) =
     [\<lparr> cnt = LGYCAP_SWIZZLE K OR LGYCAP_ROT_NONE K OR LGYCAP_FMT_A1BGR5 K
               OR (if sc < 2 then 0 else LGYCAP_HSCALE_EN K OR LGYCAP_VSCALE_EN K),
        w = (if sc < 2 then 240 else 360),
        h = (if sc < 2 then 160 else 240),
        irq = 0, vLen = 6, vPatt = 0x1B,
        vMatrix = take 48 (s16s_of_bytes (snd (fsQuickRead fs ''gba_scaler_matrix.bin''
                     (bytes_of_s16s (matrix st)) 192))),
        hLen = 6, hPatt = 0x1B,
        hMatrix = take 48 (drop 48 (s16s_of_bytes (snd (fsQuickRead fs ''gba_scaler_matrix.bin''
                     (bytes_of_s16s (matrix st)) 192)))) \<rparr>]"
  by (simp add: setupFrameCapture_def Let_def split_beta)

lemma and_or_zero_left:
  fixes a b c :: u32
  assumes "a AND (b OR c) = 0"
  shows "a AND b = 0" and "a AND c = 0"
proof -
  have "\<not> (bit a n \<and> (bit b n \<or> bit c n))" for n
  proof -
    have "bit (a AND (b OR c)) n = bit (0 :: u32) n" by (simp only: assms)
    then show ?thesis by (simp add: bit_simps)
  qed
  then show "a AND b = 0" and "a AND c = 0"
    by (auto intro!: bit_eqI simp: bit_simps)
qed

lemma or_and_self_right:
  fixes a b c d e :: u32
  shows "(a OR b OR c OR d OR e) AND d = d" and "(a OR b OR c OR d OR e) AND e = e"
  by (auto intro!: bit_eqI simp: bit_simps)

text \<open>
  Claim C2. For every scaler mode the configurator hands one configuration to the capture
  unit: for mode 0 or 1 its geometry is 240 by 160 and neither scaling direction is
  enabled; for every mode from 2 on its geometry is 360 by 240 and both directions are
  enabled. The enable bits are bits of their own in the header (\<open>scale_bits_own\<close>).
\<close>

theorem C2_capture_geometry:
  assumes "scale_bits_own K"
  shows "\<exists>c. lgycap_init_cfgs (snd (snd (setupFrameCapture K sc fs hnd st))) = [c] \<and>
           (sc = 0 \<or> sc = 1 \<longrightarrow>
              w c = 240 \<and> h c = 160 \<and> \<not> hscale_enabled K c \<and> \<not> vscale_enabled K c) \<and>
           (2 \<le> sc \<longrightarrow>
              w c = 360 \<and> h c = 240 \<and> hscale_enabled K c \<and> vscale_enabled K c)"
proof -
  let ?base = "LGYCAP_SWIZZLE K OR LGYCAP_ROT_NONE K OR LGYCAP_FMT_A1BGR5 K"
  have hs: "LGYCAP_HSCALE_EN K \<noteq> 0" and vs: "LGYCAP_VSCALE_EN K \<noteq> 0"
    and dj: "?base AND (LGYCAP_HSCALE_EN K OR LGYCAP_VSCALE_EN K) = 0"
    using assms by (simp_all add: scale_bits_own_def)
  note off = and_or_zero_left [OF dj]
  note on = or_and_self_right [of "LGYCAP_SWIZZLE K" "LGYCAP_ROT_NONE K" "LGYCAP_FMT_A1BGR5 K"
      "LGYCAP_HSCALE_EN K" "LGYCAP_VSCALE_EN K"]
  have lt: "sc = 0 \<or> sc = 1 \<longleftrightarrow> sc < 2" by (simp add: u8_less_2)
  have ge: "2 \<le> sc \<longleftrightarrow> \<not> sc < 2" by auto
  show ?thesis
    unfolding setupFrameCapture_cfgs lt ge
    using hs vs off on
    by (simp add: hscale_enabled_def vscale_enabled_def)
qed

lemma ex_scale_bits_own: "scale_bits_own ex_consts"
  by (simp add: scale_bits_own_def ex_consts_def)

theorem C2_capture_geometry_witness:
  "scale_bits_own ex_consts \<and>
   (\<exists>c. lgycap_init_cfgs (snd (snd (setupFrameCapture ex_consts 0 ex_no_files 7
            (initial_statics ex_consts)))) = [c] \<and>
         w c = 240 \<and> h c = 160 \<and> \<not> hscale_enabled ex_consts c \<and> \<not> vscale_enabled ex_consts c) \<and>
   (\<exists>c. lgycap_init_cfgs (snd (snd (setupFrameCapture ex_consts 1 ex_no_files 7
            (initial_statics ex_consts)))) = [c] \<and>
         w c = 240 \<and> h c = 160 \<and> \<not> hscale_enabled ex_consts c \<and> \<not> vscale_enabled ex_consts c) \<and>
   (\<exists>c. lgycap_init_cfgs (snd (snd (setupFrameCapture ex_consts 2 ex_no_files 7
            (initial_statics ex_consts)))) = [c] \<and>
         w c = 360 \<and> h c = 240 \<and> hscale_enabled ex_consts c \<and> vscale_enabled ex_consts c) \<and>
   (\<exists>c. lgycap_init_cfgs (snd (snd (setupFrameCapture ex_consts 3 ex_no_files 7
            (initial_statics ex_consts)))) = [c] \<and>
         w c = 360 \<and> h c = 240 \<and> hscale_enabled ex_consts c \<and> vscale_enabled ex_consts c)"
  using ex_scale_bits_own
    C2_capture_geometry [OF ex_scale_bits_own, of 0 ex_no_files 7 "initial_statics ex_consts"]
    C2_capture_geometry [OF ex_scale_bits_own, of 1 ex_no_files 7 "initial_statics ex_consts"]
    C2_capture_geometry [OF ex_scale_bits_own, of 2 ex_no_files 7 "initial_statics ex_consts"]
    C2_capture_geometry [OF ex_scale_bits_own, of 3 ex_no_files 7 "initial_statics ex_consts"]
  by (simp add: word_le_nat_alt)

section \<open>Properties of the frame pipeline task\<close>

lemma dump_steps_append: "dump_steps (es @ fs) = dump_steps es @ dump_steps fs"
  by (induction es rule: dump_steps.induct) simp_all

lemma cmd_lists_append: "cmd_lists (es @ fs) = cmd_lists es @ cmd_lists fs"
  by (induction es rule: cmd_lists.induct) simp_all

lemma dump_steps_dumpFrameTex:
  "dump_steps (snd (snd (dumpFrameTex K cfg bh x))) =
     [Capture_stopped, Frame_transferred, File_written (write_res x), Capture_started]"
  by (simp add: dumpFrameTex_def Let_def split_beta)

lemma fst_dumpFrameTex: "fst (dumpFrameTex K cfg bh x) = write_res x"
  by (simp add: dumpFrameTex_def Let_def split_beta)

lemma gfx_pass_unfold:
  "gfx_pass K cfg ev st x =
     (if triggered K x
      then (st\<lparr> inited := True, bmpHeaders := fst (snd (dumpFrameTex K cfg (bmpHeaders st) x)) \<rparr>,
            [Call_clearEvent ev,
             Call_GX_processCommandList (if inited st then gbaGpuList2 else gbaGpuInitList),
             Call_GFX_waitForP3D,
             Call_GX_displayTransfer GPU_RENDER_BUF_ADDR (PPF_DIM 240 400) (TopLeftBuf 0)
               (PPF_DIM 240 400) (PPF_O_FMT K (GX_BGR8 K) OR PPF_I_FMT K (GX_BGR8 K)),
             Call_GFX_waitForPPF,
             Call_GFX_swapBuffers] @ snd (snd (dumpFrameTex K cfg (bmpHeaders st) x)))
      else (st\<lparr> inited := True \<rparr>,
            [Call_clearEvent ev,
             Call_GX_processCommandList (if inited st then gbaGpuList2 else gbaGpuInitList),
             Call_GFX_waitForP3D,
             Call_GX_displayTransfer GPU_RENDER_BUF_ADDR (PPF_DIM 240 400) (TopLeftBuf 0)
               (PPF_DIM 240 400) (PPF_O_FMT K (GX_BGR8 K) OR PPF_I_FMT K (GX_BGR8 K)),
             Call_GFX_waitForPPF,
             Call_GFX_swapBuffers]))"
  by (cases "inited st") (simp_all add: gfx_pass_def triggered_def Let_def split_beta)

lemma dump_steps_gfx_pass:
  "dump_steps (snd (gfx_pass K cfg ev st x)) =
     (if triggered K x
      then [Capture_stopped, Frame_transferred, File_written (write_res x), Capture_started]
      else [])"
  by (simp add: gfx_pass_unfold dump_steps_dumpFrameTex)

lemma cmd_lists_dumpFrameTex: "cmd_lists (snd (snd (dumpFrameTex K cfg bh x))) = []"
  by (simp add: dumpFrameTex_def Let_def split_beta)

lemma cmd_lists_gfx_pass:
  "cmd_lists (snd (gfx_pass K cfg ev st x)) =
     [if inited st then gbaGpuList2 else gbaGpuInitList]"
  by (simp add: gfx_pass_unfold cmd_lists_dumpFrameTex)

lemma inited_gfx_pass: "inited (fst (gfx_pass K cfg ev st x)) = True"
  by (simp add: gfx_pass_unfold)

lemma gbaGfxHandler_Cons:
  "gbaGfxHandler K cfg ev st (x # xs) =
     (if wait_res x \<noteq> KRES_OK then (st, [Call_waitForEvent ev, Call_taskExit])
      else (fst (gbaGfxHandler K cfg ev (fst (gfx_pass K cfg ev st x)) xs),
            Call_waitForEvent ev # snd (gfx_pass K cfg ev st x)
              @ snd (gbaGfxHandler K cfg ev (fst (gfx_pass K cfg ev st x)) xs)))"
  by (simp add: split_beta)

lemma processed_Cons:
  "processed (x # xs) = (if wait_res x = KRES_OK then x # processed xs else [])"
  by (simp add: processed_def)

lemma processed_Nil: "processed [] = []"
  by (simp add: processed_def)

lemma cmd_lists_gbaGfxHandler:
  "cmd_lists (snd (gbaGfxHandler K cfg ev st xs)) =
     (case processed xs of
        [] \<Rightarrow> []
      | y # ys \<Rightarrow> (if inited st then gbaGpuList2 else gbaGpuInitList)
                    # replicate (length ys) gbaGpuList2)"
proof (induction xs arbitrary: st)
  case Nil
  show ?case by (simp add: processed_Nil)
next
  case (Cons x xs)
  show ?case
  proof (cases "wait_res x = KRES_OK")
    case False
    then show ?thesis by (simp add: processed_Cons)
  next
    case True
    have rest: "cmd_lists (snd (gbaGfxHandler K cfg ev (fst (gfx_pass K cfg ev st x)) xs)) =
        replicate (length (processed xs)) gbaGpuList2"
      unfolding Cons.IH by (cases "processed xs") (simp_all add: inited_gfx_pass)
    show ?thesis
      using True
      by (simp add: gbaGfxHandler_Cons processed_Cons cmd_lists_append cmd_lists_gfx_pass rest
               del: gbaGfxHandler.simps)
  qed
qed

lemma inited_gbaGfxHandler:
  "inited (fst (gbaGfxHandler K cfg ev st xs)) = (inited st \<or> processed xs \<noteq> [])"
proof (induction xs arbitrary: st)
  case Nil
  show ?case by (simp add: processed_Nil)
next
  case (Cons x xs)
  show ?case
    by (simp add: gbaGfxHandler_Cons processed_Cons Cons.IH inited_gfx_pass
             del: gbaGfxHandler.simps)
qed

lemma dump_steps_gbaGfxHandler:
  "dump_steps (snd (gbaGfxHandler K cfg ev st xs)) =
     concat (map (\<lambda>x. if triggered K x
                        then [Capture_stopped, Frame_transferred, File_written (write_res x),
                              Capture_started]
                        else [])
                 (processed xs))"
proof (induction xs arbitrary: st)
  case Nil
  show ?case by (simp add: processed_Nil)
next
  case (Cons x xs)
  show ?case
    by (simp add: gbaGfxHandler_Cons processed_Cons Cons.IH dump_steps_append
                  dump_steps_gfx_pass del: gbaGfxHandler.simps)
qed

lemma gfx_pass_write_res:
  "fst (gfx_pass K cfg ev st (x\<lparr> write_res := r \<rparr>)) = fst (gfx_pass K cfg ev st x) \<and>
   map forget_write_res (snd (gfx_pass K cfg ev st (x\<lparr> write_res := r \<rparr>))) =
     map forget_write_res (snd (gfx_pass K cfg ev st x))"
  by (simp add: gfx_pass_unfold triggered_def dumpFrameTex_def Let_def split_beta)

lemma gbaGfxHandler_write_res:
  "fst (gbaGfxHandler K cfg ev st (map (\<lambda>x. x\<lparr> write_res := f x \<rparr>) xs)) =
     fst (gbaGfxHandler K cfg ev st xs) \<and>
   map forget_write_res (snd (gbaGfxHandler K cfg ev st (map (\<lambda>x. x\<lparr> write_res := f x \<rparr>) xs))) =
     map forget_write_res (snd (gbaGfxHandler K cfg ev st xs))"
proof (induction xs arbitrary: st)
  case Nil
  show ?case by simp
next
  case (Cons x xs)
  show ?case
    by (simp add: gbaGfxHandler_Cons Cons.IH gfx_pass_write_res del: gbaGfxHandler.simps)
qed


lemma stops_gbaGfxHandler:
  "length (filter (\<lambda>s. s = Capture_stopped) (dump_steps (snd (gbaGfxHandler K cfg ev st xs)))) =
     length (filter (triggered K) (processed xs))"
proof -
  have "length (filter (\<lambda>s. s = Capture_stopped)
          (concat (map (\<lambda>x. if triggered K x
                        then [Capture_stopped, Frame_transferred, File_written (write_res x),
                              Capture_started]
                        else []) ys))) = length (filter (triggered K) ys)" for ys
    by (induction ys) simp_all
  then show ?thesis unfolding dump_steps_gbaGfxHandler .
qed

text \<open>
  Claim C3. In every pass of the task the screenshot capture is invoked if and only if
  the held mask equals exactly \<open>KEY_Y | KEY_SELECT\<close> and the newly-pressed mask of the same
  sample is not zero. It is not invoked for any other held mask (a strict superset or a
  strict subset of the two keys among them), nor when the newly-pressed mask is zero. Over
  a whole run the capture unit is stopped once for every processed sample that meets the
  condition.
\<close>

theorem C3_screenshot_trigger:
  "dump_invoked (snd (gfx_pass K cfg ev st x)) =
     (keys_held x = (KEY_Y K OR KEY_SELECT K) \<and> keys_down x \<noteq> 0) \<and>
   (keys_held x \<noteq> (KEY_Y K OR KEY_SELECT K) \<longrightarrow> \<not> dump_invoked (snd (gfx_pass K cfg ev st x))) \<and>
   (keys_down x = 0 \<longrightarrow> \<not> dump_invoked (snd (gfx_pass K cfg ev st x))) \<and>
   length (filter (\<lambda>s. s = Capture_stopped) (dump_steps (snd (gbaGfxHandler K cfg ev st xs)))) =
     length (filter (\<lambda>x. keys_held x = (KEY_Y K OR KEY_SELECT K) \<and> keys_down x \<noteq> 0)
               (processed xs))"
proof -
  have t: "triggered K = (\<lambda>x. keys_held x = (KEY_Y K OR KEY_SELECT K) \<and> keys_down x \<noteq> 0)"
    by (rule ext) (simp add: triggered_def)
  show ?thesis
    using stops_gbaGfxHandler [of K cfg ev st xs]
    by (simp add: dump_invoked_def dump_steps_gfx_pass t)
qed

theorem C3_screenshot_trigger_witness:
  "dump_invoked (snd (gfx_pass ex_consts (ex_cfg 0) 7 (initial_statics ex_consts)
      (ex_sample 0x804 4 RES_OK))) \<and>
   \<not> dump_invoked (snd (gfx_pass ex_consts (ex_cfg 0) 7 (initial_statics ex_consts)
      (ex_sample 0x805 4 RES_OK))) \<and>
   \<not> dump_invoked (snd (gfx_pass ex_consts (ex_cfg 0) 7 (initial_statics ex_consts)
      (ex_sample 0x800 4 RES_OK))) \<and>
   \<not> dump_invoked (snd (gfx_pass ex_consts (ex_cfg 0) 7 (initial_statics ex_consts)
      (ex_sample 0x804 0 RES_OK)))"
  using
    C3_screenshot_trigger [of ex_consts "ex_cfg 0" 7 "initial_statics ex_consts"
      "ex_sample 0x804 4 RES_OK" "[]"]
    C3_screenshot_trigger [of ex_consts "ex_cfg 0" 7 "initial_statics ex_consts"
      "ex_sample 0x805 4 RES_OK" "[]"]
    C3_screenshot_trigger [of ex_consts "ex_cfg 0" 7 "initial_statics ex_consts"
      "ex_sample 0x800 4 RES_OK" "[]"]
    C3_screenshot_trigger [of ex_consts "ex_cfg 0" 7 "initial_statics ex_consts"
      "ex_sample 0x804 0 RES_OK" "[]"]
  by (simp add: ex_consts_def ex_sample_def)

text \<open>
  Claim C4. The flag \<open>inited\<close> is false when the program starts, is true after every
  pass whatever it was before (so it is set by the first pass and never reset), and is
  true at the end of a run exactly when it was true before or a signal was processed.
  Consequently, in a run of the task from the initial statics, the first processed
  frame-ready signal selects \<open>gbaGpuInitList\<close> and every later one \<open>gbaGpuList2\<close>, for
  any number of passes.
\<close>

theorem C4_command_list_selection:
  "inited (initial_statics K) = False \<and>
   inited (fst (gfx_pass K cfg ev st x)) = True \<and>
   inited (fst (gbaGfxHandler K cfg ev st xs)) = (inited st \<or> processed xs \<noteq> []) \<and>
   cmd_lists (snd (gbaGfxHandler K cfg ev (initial_statics K) xs)) =
     (case processed xs of
        [] \<Rightarrow> []
      | y # ys \<Rightarrow> gbaGpuInitList # replicate (length ys) gbaGpuList2)"
  by (simp add: inited_gfx_pass inited_gbaGfxHandler cmd_lists_gbaGfxHandler initial_statics_def)

theorem C4_command_list_selection_witness:
  "cmd_lists (snd (gbaGfxHandler ex_consts (ex_cfg 0) 7 (initial_statics ex_consts)
      [ex_sample 0 0 RES_OK, ex_sample 0x804 4 RES_OK, ex_sample 0 0 RES_OK])) =
     [gbaGpuInitList, gbaGpuList2, gbaGpuList2] \<and>
   inited (fst (gbaGfxHandler ex_consts (ex_cfg 0) 7 (initial_statics ex_consts)
      [ex_sample 0 0 RES_OK, ex_sample 0x804 4 RES_OK, ex_sample 0 0 RES_OK]))"
  using C4_command_list_selection [of ex_consts "ex_cfg 0" 7 "initial_statics ex_consts"
      "ex_sample 0 0 RES_OK" "[ex_sample 0 0 RES_OK, ex_sample 0x804 4 RES_OK, ex_sample 0 0 RES_OK]"]
  by (simp add: processed_def ex_sample_def)

text \<open>
  Claim C6. Every call of the serializer returns the result of the storage write, and
  its trace stops the capture unit first, then transfers the frame and writes the file,
  and starts the capture unit last, whatever the result of the write. In a run of the
  task every triggered pass contributes exactly this sequence, and the results of the
  writes change neither the state the task ends in nor its trace (apart from the results
  recorded in it): the caller drops them.
\<close>

theorem C6_capture_restarted:
  "fst (dumpFrameTex K cfg bh x) = write_res x \<and>
   dump_steps (snd (snd (dumpFrameTex K cfg bh x))) =
     [Capture_stopped, Frame_transferred, File_written (write_res x), Capture_started] \<and>
   dump_steps (snd (gbaGfxHandler K cfg ev st xs)) =
     concat (map (\<lambda>x. if keys_held x = (KEY_Y K OR KEY_SELECT K) \<and> keys_down x \<noteq> 0
                        then [Capture_stopped, Frame_transferred, File_written (write_res x),
                              Capture_started]
                        else [])
                 (processed xs)) \<and>
   fst (gbaGfxHandler K cfg ev st (map (\<lambda>x. x\<lparr> write_res := f x \<rparr>) xs)) =
     fst (gbaGfxHandler K cfg ev st xs) \<and>
   map forget_write_res (snd (gbaGfxHandler K cfg ev st (map (\<lambda>x. x\<lparr> write_res := f x \<rparr>) xs))) =
     map forget_write_res (snd (gbaGfxHandler K cfg ev st xs))"
  using gbaGfxHandler_write_res [of K cfg ev st f xs]
  by (simp add: fst_dumpFrameTex dump_steps_dumpFrameTex dump_steps_gbaGfxHandler triggered_def)

theorem C6_capture_restarted_witness:
  "fst (dumpFrameTex ex_consts (ex_cfg 0) (initial_bmpHeaders ex_consts)
      (ex_sample 0x804 4 (RES_OTHER 9))) = RES_OTHER 9 \<and>
   dump_steps (snd (gbaGfxHandler ex_consts (ex_cfg 0) 7 (initial_statics ex_consts)
      [ex_sample 0x804 4 (RES_OTHER 9), ex_sample 0x804 1 RES_OK])) =
     [Capture_stopped, Frame_transferred, File_written (RES_OTHER 9), Capture_started,
      Capture_stopped, Frame_transferred, File_written RES_OK, Capture_started]"
  using C6_capture_restarted [of ex_consts "ex_cfg 0" "initial_bmpHeaders ex_consts"
      "ex_sample 0x804 4 (RES_OTHER 9)" 7 "initial_statics ex_consts"
      "[ex_sample 0x804 4 (RES_OTHER 9), ex_sample 0x804 1 RES_OK]" "\<lambda>x. RES_OK"]
  by (simp add: processed_def ex_sample_def ex_consts_def)

section \<open>Properties of the screenshot serializer\<close>

lemma le32_at_roundtrip:
  "ucast (ucast x :: u8) OR push_bit 8 (ucast (ucast (drop_bit 8 x) :: u8))
     OR push_bit 16 (ucast (ucast (drop_bit 16 x) :: u8))
     OR push_bit 24 (ucast (ucast (drop_bit 24 x) :: u8)) = (x :: u32)"
proof (rule bit_word_eqI)
  fix n
  assume "n < LENGTH(32)"
  then consider "n < 8" | "8 \<le> n" "n < 16" | "16 \<le> n" "n < 24" | "24 \<le> n" "n < 32"
    by fastforce
  then show "bit (ucast (ucast x :: u8) OR push_bit 8 (ucast (ucast (drop_bit 8 x) :: u8))
       OR push_bit 16 (ucast (ucast (drop_bit 16 x) :: u8))
       OR push_bit 24 (ucast (ucast (drop_bit 24 x) :: u8)) :: u32) n = bit x n"
    by cases (auto simp: bit_simps)
qed

lemma length_bmp_bytes: "length (bmp_bytes b) = 66"
  by (simp add: bmp_bytes_def bmp_header_bytes_def dib_bytes_def le16_def le32_def)

lemma length_dib_bytes: "length (dib_bytes d) = unat sizeof_Bitmapinfoheader"
  by (simp add: dib_bytes_def le16_def le32_def sizeof_Bitmapinfoheader_def)

lemma payload_offset_128: "payload_offset = 128"
  by (simp add: payload_offset_def alignment_def)

lemma mem_write_header:
  "k < 66 \<Longrightarrow> mem_write 0 (bmp_bytes b) mem k = bmp_bytes b ! k"
  by (simp add: mem_write_def length_bmp_bytes)

lemma le32_at_mem_write:
  "a + 3 < 66 \<Longrightarrow> le32_at (mem_write 0 (bmp_bytes b) mem) a = le32_at ((!) (bmp_bytes b)) a"
  by (simp add: le32_at_def mem_write_header)

lemma le32_at_bmp_bytes:
  "le32_at ((!) (bmp_bytes b)) 2 = fileSize (header b)"
  "le32_at ((!) (bmp_bytes b)) 10 = pixelOffset (header b)"
  "le32_at ((!) (bmp_bytes b)) 18 = width (dib b)"
  "le32_at ((!) (bmp_bytes b)) 22 = height (dib b)"
  by (simp_all add: le32_at_def le32_at_roundtrip
        bmp_bytes_def bmp_header_bytes_def dib_bytes_def le16_def le32_def)

lemma header_fields:
  "bmp_fileSize_field (mem_write 0 (bmp_bytes b) mem) = fileSize (header b)"
  "bmp_pixelOffset_field (mem_write 0 (bmp_bytes b) mem) = pixelOffset (header b)"
  "bmp_width_field (mem_write 0 (bmp_bytes b) mem) = width (dib b)"
  "bmp_height_field (mem_write 0 (bmp_bytes b) mem) = height (dib b)"
  by (simp_all add: bmp_fileSize_field_def bmp_pixelOffset_field_def bmp_width_field_def
        bmp_height_field_def le32_at_mem_write le32_at_bmp_bytes)

lemma written_files_append:
  "written_files (es @ fs) = written_files es @ written_files fs"
  by (induction es rule: written_files.induct) simp_all

lemma written_files_dumpFrameTex:
  "written_files (snd (snd (dumpFrameTex K cfg bh x))) =
     (if write_res x = RES_OK
      then [(mem_write 0 (bmp_bytes (fst (snd (dumpFrameTex K cfg bh x))))
               (ppf_output payload_offset
                  (if 1 < scaler cfg then PPF_DIM 360 240 else PPF_DIM 240 160)
                  (ppf_pixels x) (tmpBuf0 x)),
             if 1 < scaler cfg then alignment + 360 * 240 * 2 else alignment + 240 * 160 * 2)]
      else [])"
  by (cases "write_res x") (simp_all add: dumpFrameTex_def Let_def split_beta)

lemma bmpHeaders_dumpFrameTex:
  "fst (snd (dumpFrameTex K cfg bh x)) =
     (if 1 < scaler cfg
      then bh\<lparr> header := (header bh)\<lparr> fileSize := alignment + 360 * 240 * 2 \<rparr>,
              dib := (dib bh)\<lparr> width := 360, height := - 240, imageSize := 360 * 240 * 2 \<rparr> \<rparr>
      else bh)"
  by (simp add: dumpFrameTex_def Let_def split_beta)

lemma dump_file_fields:
  assumes "pixelOffset (header bh) = 128"
    and "1 < scaler cfg \<or> bh = initial_bmpHeaders K"
    and "f \<in> set (written_files (snd (snd (dumpFrameTex K cfg bh x))))"
  shows "if 1 < scaler cfg
         then unat (snd f) = 128 + 360 * 240 * 2 \<and> bmp_width_field (fst f) = 360 \<and>
              sint (bmp_height_field (fst f)) = - 240 \<and> bmp_pixelOffset_field (fst f) = 128
         else unat (snd f) = 128 + 240 * 160 * 2 \<and> bmp_width_field (fst f) = 240 \<and>
              sint (bmp_height_field (fst f)) = - 160 \<and> bmp_pixelOffset_field (fst f) = 128"
proof (cases "1 < scaler cfg")
  case True
  then show ?thesis
    using assms(1,3)
    by (auto simp: written_files_dumpFrameTex bmpHeaders_dumpFrameTex header_fields
          alignment_def split: if_splits)
next
  case False
  then have "bh = initial_bmpHeaders K" using assms(2) by simp
  then show ?thesis
    using False assms(3)
    by (auto simp: written_files_dumpFrameTex bmpHeaders_dumpFrameTex header_fields
          alignment_def initial_bmpHeaders_def split: if_splits)
qed

lemma gfx_pass_keeps_header_inv:
  assumes "pixelOffset (header (bmpHeaders st)) = 128"
    and "1 < scaler cfg \<or> bmpHeaders st = initial_bmpHeaders K"
  shows "pixelOffset (header (bmpHeaders (fst (gfx_pass K cfg ev st x)))) = 128"
    and "1 < scaler cfg \<or> bmpHeaders (fst (gfx_pass K cfg ev st x)) = initial_bmpHeaders K"
  using assms by (auto simp: gfx_pass_unfold bmpHeaders_dumpFrameTex)

lemma written_files_gfx_pass:
  "written_files (snd (gfx_pass K cfg ev st x)) =
     (if triggered K x then written_files (snd (snd (dumpFrameTex K cfg (bmpHeaders st) x)))
      else [])"
  by (simp add: gfx_pass_unfold written_files_append)

lemma run_file_fields:
  assumes "pixelOffset (header (bmpHeaders st)) = 128"
    and "1 < scaler cfg \<or> bmpHeaders st = initial_bmpHeaders K"
    and "f \<in> set (written_files (snd (gbaGfxHandler K cfg ev st xs)))"
  shows "if 1 < scaler cfg
         then unat (snd f) = 128 + 360 * 240 * 2 \<and> bmp_width_field (fst f) = 360 \<and>
              sint (bmp_height_field (fst f)) = - 240 \<and> bmp_pixelOffset_field (fst f) = 128
         else unat (snd f) = 128 + 240 * 160 * 2 \<and> bmp_width_field (fst f) = 240 \<and>
              sint (bmp_height_field (fst f)) = - 160 \<and> bmp_pixelOffset_field (fst f) = 128"
  using assms
proof (induction xs arbitrary: st)
  case Nil
  then show ?case by simp
next
  case (Cons x xs)
  show ?case
  proof (cases "wait_res x = KRES_OK")
    case False
    with Cons.prems(3) show ?thesis by simp
  next
    case True
    let ?st = "fst (gfx_pass K cfg ev st x)"
    from Cons.prems(3) True
    consider "f \<in> set (written_files (snd (gfx_pass K cfg ev st x)))"
      | "f \<in> set (written_files (snd (gbaGfxHandler K cfg ev ?st xs)))"
      by (auto simp: gbaGfxHandler_Cons written_files_append simp del: gbaGfxHandler.simps)
    then show ?thesis
    proof cases
      case 1
      then have "f \<in> set (written_files (snd (snd (dumpFrameTex K cfg (bmpHeaders st) x))))"
        by (simp add: written_files_gfx_pass split: if_splits)
      with Cons.prems(1,2) show ?thesis by (rule dump_file_fields)
    next
      case 2
      have "pixelOffset (header (bmpHeaders ?st)) = 128"
        and "1 < scaler cfg \<or> bmpHeaders ?st = initial_bmpHeaders K"
        using Cons.prems(1,2) by (rule gfx_pass_keeps_header_inv)+
      then show ?thesis using 2 by (rule Cons.IH)
    qed
  qed
qed

lemma initial_header_inv:
  "pixelOffset (header (bmpHeaders (initial_statics K))) = 128"
  by (simp add: initial_statics_def initial_bmpHeaders_def alignment_def)

lemma dump_file_payload:
  assumes "f \<in> set (written_files (snd (snd (dumpFrameTex K cfg bh x))))"
    and "k < (if 1 < scaler cfg then 360 * 240 * 2 else 240 * 160 * 2)"
  shows "fst f (128 + k) = ppf_pixels x k"
  using assms
  by (auto simp: written_files_dumpFrameTex mem_write_def ppf_output_def length_bmp_bytes
        payload_offset_128 PPF_DIM_def split: if_splits)

lemma u8_gt_1: "(sc :: u8) = 0 \<Longrightarrow> \<not> 1 < sc" "(sc :: u8) = 2 \<Longrightarrow> 1 < sc"
  by simp_all

lemma screenshot_file_fields:
  "(\<forall>f \<in> set (written_files (snd (gbaGfxHandler K cfg ev (initial_statics K) xs))).
      (scaler cfg = 0 \<longrightarrow>
         unat (snd f) = 128 + 240 * 160 * 2 \<and> bmp_width_field (fst f) = 240 \<and>
         sint (bmp_height_field (fst f)) = - 160 \<and> bmp_pixelOffset_field (fst f) = 128) \<and>
      (scaler cfg = 2 \<longrightarrow>
         unat (snd f) = 128 + 360 * 240 * 2 \<and> bmp_width_field (fst f) = 360 \<and>
         sint (bmp_height_field (fst f)) = - 240 \<and> bmp_pixelOffset_field (fst f) = 128)) \<and>
   (\<forall>f \<in> set (written_files (snd (snd (dumpFrameTex K cfg bh x)))).
      \<forall>k < (if 1 < scaler cfg then 360 * 240 * 2 else 240 * 160 * 2).
        fst f (128 + k) = ppf_pixels x k)"
proof (intro conjI ballI allI impI)
  fix f
  assume f: "f \<in> set (written_files (snd (gbaGfxHandler K cfg ev (initial_statics K) xs)))"
  have init: "1 < scaler cfg \<or> bmpHeaders (initial_statics K) = initial_bmpHeaders K"
    by (simp add: initial_statics_def)
  note fields = run_file_fields [OF initial_header_inv init f]
  {
    assume "scaler cfg = 0"
    then have "\<not> 1 < scaler cfg" by simp
    with fields show "unat (snd f) = 128 + 240 * 160 * 2" "bmp_width_field (fst f) = 240"
      "sint (bmp_height_field (fst f)) = - 160" "bmp_pixelOffset_field (fst f) = 128"
      by simp_all
  }
  {
    assume "scaler cfg = 2"
    then have "1 < scaler cfg" by simp
    with fields show "unat (snd f) = 128 + 360 * 240 * 2" "bmp_width_field (fst f) = 360"
      "sint (bmp_height_field (fst f)) = - 240" "bmp_pixelOffset_field (fst f) = 128"
      by simp_all
  }
next
  fix f :: "(nat \<Rightarrow> u8) \<times> u32" and k :: nat
  assume "f \<in> set (written_files (snd (snd (dumpFrameTex K cfg bh x))))"
    and "k < (if 1 < scaler cfg then 360 * 240 * 2 else 240 * 160 * 2)"
  then show "fst f (128 + k) = ppf_pixels x k" by (rule dump_file_payload)
qed

lemma length_written_files_dumpFrameTex:
  "length (written_files (snd (snd (dumpFrameTex K cfg bh x)))) =
     (if write_res x = RES_OK then 1 else 0)"
  by (simp add: written_files_dumpFrameTex)

lemma length_written_files_gbaGfxHandler:
  "length (written_files (snd (gbaGfxHandler K cfg ev st xs))) =
     length (filter (\<lambda>x. triggered K x \<and> write_res x = RES_OK) (processed xs))"
proof (induction xs arbitrary: st)
  case Nil
  show ?case by (simp add: processed_Nil)
next
  case (Cons x xs)
  show ?case
    by (simp add: gbaGfxHandler_Cons processed_Cons Cons.IH written_files_append
          written_files_gfx_pass written_files_dumpFrameTex
          del: gbaGfxHandler.simps)
qed

text \<open>
  Claim C5. In a run of the task from the initial statics, every processed sample that
  meets the trigger and whose storage write succeeds produces one file, and no other file
  is produced. Every such file has, under scaler mode 0, \<open>128 + 240*160*2\<close> bytes, an
  embedded width field of 240 and a height field of -160, and under scaler mode 2
  \<open>128 + 360*240*2\<close> bytes, width 360 and height -240. In both cases the pixel payload
  begins at byte offset 128: the header names that offset, and the bytes of the file from
  offset 128 on are the bytes the transfer engine produced.
\<close>

theorem C5_screenshot_file:
  "(\<forall>f \<in> set (written_files (snd (gbaGfxHandler K cfg ev (initial_statics K) xs))).
      (scaler cfg = 0 \<longrightarrow>
         unat (snd f) = 128 + 240 * 160 * 2 \<and> bmp_width_field (fst f) = 240 \<and>
         sint (bmp_height_field (fst f)) = - 160 \<and> bmp_pixelOffset_field (fst f) = 128) \<and>
      (scaler cfg = 2 \<longrightarrow>
         unat (snd f) = 128 + 360 * 240 * 2 \<and> bmp_width_field (fst f) = 360 \<and>
         sint (bmp_height_field (fst f)) = - 240 \<and> bmp_pixelOffset_field (fst f) = 128)) \<and>
   (\<forall>f \<in> set (written_files (snd (snd (dumpFrameTex K cfg bh x)))).
      \<forall>k < (if 1 < scaler cfg then 360 * 240 * 2 else 240 * 160 * 2).
        fst f (128 + k) = ppf_pixels x k) \<and>
   length (written_files (snd (gbaGfxHandler K cfg ev (initial_statics K) xs))) =
     length (filter (\<lambda>x. keys_held x = (KEY_Y K OR KEY_SELECT K) \<and> keys_down x \<noteq> 0 \<and>
                         write_res x = RES_OK)
               (processed xs)) \<and>
   (write_res x = RES_OK \<longrightarrow>
      length (written_files (snd (snd (dumpFrameTex K cfg bh x)))) = 1)"
proof -
  have t: "triggered K = (\<lambda>x. keys_held x = (KEY_Y K OR KEY_SELECT K) \<and> keys_down x \<noteq> 0)"
    by (rule ext) (simp add: triggered_def)
  have n: "length (written_files (snd (gbaGfxHandler K cfg ev (initial_statics K) xs))) =
     length (filter (\<lambda>x. keys_held x = (KEY_Y K OR KEY_SELECT K) \<and> keys_down x \<noteq> 0 \<and>
                         write_res x = RES_OK)
               (processed xs))"
    unfolding length_written_files_gbaGfxHandler t by (simp add: conj_assoc)
  have d: "write_res x = RES_OK \<longrightarrow>
      length (written_files (snd (snd (dumpFrameTex K cfg bh x)))) = 1"
    by (simp add: length_written_files_dumpFrameTex)
  from screenshot_file_fields [of K cfg ev xs bh x] n d show ?thesis
    by (intro conjI) (erule conjunct1, erule conjunct2, assumption+)
qed

theorem C5_screenshot_file_witness:
  "map (\<lambda>f. (unat (snd f), bmp_width_field (fst f), sint (bmp_height_field (fst f)),
              bmp_pixelOffset_field (fst f), fst f 130))
     (written_files (snd (gbaGfxHandler ex_consts (ex_cfg 0) 7 (initial_statics ex_consts)
        [ex_sample 0x804 4 RES_OK]))) = [(76928, 240, - 160, 128, 2)] \<and>
   map (\<lambda>f. (unat (snd f), bmp_width_field (fst f), sint (bmp_height_field (fst f)),
              bmp_pixelOffset_field (fst f), fst f 130))
     (written_files (snd (gbaGfxHandler ex_consts (ex_cfg 2) 7 (initial_statics ex_consts)
        [ex_sample 0x804 4 RES_OK]))) = [(172928, 360, - 240, 128, 2)]"
proof -
  let ?x = "ex_sample 0x804 4 RES_OK"
  let ?bh = "initial_bmpHeaders ex_consts"
  have tr: "triggered ex_consts ?x" "wait_res ?x = KRES_OK" "write_res ?x = RES_OK"
    "ppf_pixels ?x 2 = 2"
    by (simp_all add: triggered_def ex_consts_def ex_sample_def)
  have run: "written_files (snd (gbaGfxHandler ex_consts (ex_cfg sc) 7 (initial_statics ex_consts) [?x]))
      = written_files (snd (snd (dumpFrameTex ex_consts (ex_cfg sc) ?bh ?x)))" for sc
    using tr
    by (simp add: gbaGfxHandler_Cons written_files_append written_files_gfx_pass
          initial_statics_def del: gbaGfxHandler.simps(2))
  have one: "\<exists>f. written_files (snd (snd (dumpFrameTex ex_consts (ex_cfg sc) ?bh ?x))) = [f]" for sc
    using tr by (simp add: written_files_dumpFrameTex)
  obtain f0 where f0: "written_files (snd (snd (dumpFrameTex ex_consts (ex_cfg 0) ?bh ?x))) = [f0]"
    using one by blast
  obtain f2 where f2: "written_files (snd (snd (dumpFrameTex ex_consts (ex_cfg 2) ?bh ?x))) = [f2]"
    using one by blast
  have sc: "scaler (ex_cfg 0) = 0" "scaler (ex_cfg 2) = 2" by (simp_all add: ex_cfg_def)
  have c0: "unat (snd f0) = 76928 \<and> bmp_width_field (fst f0) = 240 \<and>
      sint (bmp_height_field (fst f0)) = - 160 \<and> bmp_pixelOffset_field (fst f0) = 128 \<and>
      (\<forall>k<76800. fst f0 (128 + k) = ppf_pixels ?x k)"
    using C5_screenshot_file [of ex_consts "ex_cfg 0" 7 "[?x]" ?bh ?x] run [of 0] f0 sc
    by simp
  then have "(2::nat) < 76800 \<longrightarrow> fst f0 (128 + 2) = ppf_pixels ?x 2" by blast
  then have p0: "fst f0 130 = 2" using tr(4) by simp
  have c2: "unat (snd f2) = 172928 \<and> bmp_width_field (fst f2) = 360 \<and>
      sint (bmp_height_field (fst f2)) = - 240 \<and> bmp_pixelOffset_field (fst f2) = 128 \<and>
      (\<forall>k<172800. fst f2 (128 + k) = ppf_pixels ?x k)"
    using C5_screenshot_file [of ex_consts "ex_cfg 2" 7 "[?x]" ?bh ?x] run [of 2] f2 sc
    by simp
  then have "(2::nat) < 172800 \<longrightarrow> fst f2 (128 + 2) = ppf_pixels ?x 2" by blast
  then have p2: "fst f2 130 = 2" using tr(4) by simp
  show ?thesis
    using run [of 0] run [of 2] f0 f2 c0 c2 p0 p2 by simp
qed

lemma memcpy_ranges_dumpFrameTex:
  "memcpy_ranges (snd (snd (dumpFrameTex K cfg bh x))) = [(0, 66)]"
  by (simp add: dumpFrameTex_def Let_def split_beta length_bmp_bytes)

lemma tex_transfer_ranges_dumpFrameTex:
  "tex_transfer_ranges (snd (snd (dumpFrameTex K cfg bh x))) =
     [(128, if 1 < scaler cfg then 360 * 240 * 2 else 240 * 160 * 2)]"
  by (simp add: dumpFrameTex_def Let_def split_beta payload_offset_128 PPF_DIM_def)

lemma header_payload_commute:
  "mem_write 0 (bmp_bytes b) (ppf_output payload_offset dm px mem) =
     ppf_output payload_offset dm px (mem_write 0 (bmp_bytes b) mem)"
  by (rule ext) (simp add: mem_write_def ppf_output_def length_bmp_bytes payload_offset_128)

text \<open>
  Claim C10. In every call of the serializer the header copied into the scratch buffer
  occupies the 66 bytes from offset 0, fewer than 128, and the transfer out of the capture
  texture writes from byte offset 128 of the same buffer, for both output geometries. The
  two regions are disjoint whatever the length of the payload, so the copy and the
  transfer commute: the buffer is the same whichever of them writes first.
\<close>

theorem C10_header_payload_disjoint:
  "memcpy_ranges (snd (snd (dumpFrameTex K cfg bh x))) = [(0, 66)] \<and>
   tex_transfer_ranges (snd (snd (dumpFrameTex K cfg bh x))) =
     [(128, if 1 < scaler cfg then 360 * 240 * 2 else 240 * 160 * 2)] \<and>
   length (bmp_bytes b) = 66 \<and>
   payload_offset = 128 \<and>
   {0 ..< 66} \<inter> {128 ..< 128 + (n :: nat)} = {} \<and>
   mem_write 0 (bmp_bytes b) (ppf_output payload_offset dm px mem) =
     ppf_output payload_offset dm px (mem_write 0 (bmp_bytes b) mem)"
  by (simp add: memcpy_ranges_dumpFrameTex tex_transfer_ranges_dumpFrameTex length_bmp_bytes
        payload_offset_128 header_payload_commute [unfolded payload_offset_128])

theorem C10_header_payload_disjoint_witness:
  "memcpy_ranges (snd (snd (dumpFrameTex ex_consts (ex_cfg 0) (initial_bmpHeaders ex_consts)
      (ex_sample 0x804 4 RES_OK)))) = [(0, 66)] \<and>
   tex_transfer_ranges (snd (snd (dumpFrameTex ex_consts (ex_cfg 0) (initial_bmpHeaders ex_consts)
      (ex_sample 0x804 4 RES_OK)))) = [(128, 76800)] \<and>
   length (bmp_bytes (initial_bmpHeaders ex_consts)) = 66"
proof -
  note c = C10_header_payload_disjoint [where K = ex_consts and cfg = "ex_cfg 0"
      and bh = "initial_bmpHeaders ex_consts" and x = "ex_sample 0x804 4 RES_OK"
      and b = "initial_bmpHeaders ex_consts" and n = 76800 and dm = "PPF_DIM 240 160"
      and px = "\<lambda>k. 0" and mem = "\<lambda>k. 0"]
  have "\<not> 1 < scaler (ex_cfg 0)" by (simp add: ex_cfg_def)
  with c show ?thesis by simp
qed

section \<open>Properties of the coefficient override and of the border image\<close>

lemma s16_of_bytes_le16: "s16_of_bytes (ucast x) (ucast (drop_bit 8 x)) = (x :: s16)"
proof (rule bit_word_eqI)
  fix n
  assume "n < LENGTH(16)"
  then consider "n < 8" | "8 \<le> n" "n < 16" by fastforce
  then show "bit (s16_of_bytes (ucast x) (ucast (drop_bit 8 x))) n = bit x n"
    by cases (auto simp: s16_of_bytes_def bit_simps)
qed

lemma s16s_of_bytes_roundtrip: "s16s_of_bytes (bytes_of_s16s xs) = xs"
  by (induction xs) (simp_all add: bytes_of_s16s_def le16_def s16_of_bytes_le16)

lemma bytes_of_s16s_append: "bytes_of_s16s (xs @ ys) = bytes_of_s16s xs @ bytes_of_s16s ys"
  by (simp add: bytes_of_s16s_def)

lemma fsQuickRead_NoFile: "fs path = NoFile \<Longrightarrow> fsQuickRead fs path buf n = (RES_FR_NO_FILE, buf)"
  by (simp add: fsQuickRead_def)

lemma fsQuickRead_ReadFails: "fs path = ReadFails e \<Longrightarrow> fsQuickRead fs path buf n = (e, buf)"
  by (simp add: fsQuickRead_def)

lemma printed_setupFrameCapture:
  "printed (snd (snd (setupFrameCapture K sc fs hnd st))) =
     (let res = fst (fsQuickRead fs ''gba_scaler_matrix.bin'' (bytes_of_s16s (matrix st)) 192)
      in if res \<noteq> RES_OK \<and> res \<noteq> RES_FR_NO_FILE
         then [''Failed to load hardware scaling matrix: '' @ result2String K res @ [CHR 0x0A]]
         else [])"
  by (simp add: setupFrameCapture_def Let_def split_beta)

lemma fst_setupFrameCapture: "fst (setupFrameCapture K sc fs hnd st) = hnd"
  by (simp add: setupFrameCapture_def Let_def split_beta)

lemma default_matrix_halves:
  "take 48 (drop 48 default_matrix) = drop 48 default_matrix"
  by (simp add: default_matrix_def)

lemma unchanged_matrix_cfg:
  assumes "snd (fsQuickRead fs ''gba_scaler_matrix.bin'' (bytes_of_s16s default_matrix) 192)
             = bytes_of_s16s default_matrix"
  shows "map (\<lambda>c. (vMatrix c, hMatrix c))
           (lgycap_init_cfgs (snd (snd (setupFrameCapture K sc fs hnd (initial_statics K))))) =
         [(take 48 default_matrix, drop 48 default_matrix)]"
  using assms
  by (simp add: setupFrameCapture_cfgs initial_statics_def s16s_of_bytes_roundtrip
        default_matrix_halves)

text \<open>
  Claim C7. In the first call of the configurator (the statics hold their initialisers):
  when the override file is absent, the matrices handed to the capture unit are the two
  halves of the built-in table, byte for byte, and nothing is logged; when reading the file
  fails with a code other than "not found", exactly one line naming the error is logged,
  the capture unit is still initialised and its handle returned, and the matrices are the
  built-in ones.
\<close>

theorem C7_matrix_defaults:
  "(fs ''gba_scaler_matrix.bin'' = NoFile \<longrightarrow>
      map (\<lambda>c. (vMatrix c, hMatrix c))
        (lgycap_init_cfgs (snd (snd (setupFrameCapture K sc fs hnd (initial_statics K))))) =
        [(take 48 default_matrix, drop 48 default_matrix)] \<and>
      map (\<lambda>c. bytes_of_s16s (vMatrix c) @ bytes_of_s16s (hMatrix c))
        (lgycap_init_cfgs (snd (snd (setupFrameCapture K sc fs hnd (initial_statics K))))) =
        [bytes_of_s16s default_matrix] \<and>
      printed (snd (snd (setupFrameCapture K sc fs hnd (initial_statics K)))) = []) \<and>
   (\<forall>e. fs ''gba_scaler_matrix.bin'' = ReadFails e \<and> e \<noteq> RES_OK \<and> e \<noteq> RES_FR_NO_FILE \<longrightarrow>
      printed (snd (snd (setupFrameCapture K sc fs hnd (initial_statics K)))) =
        [''Failed to load hardware scaling matrix: '' @ result2String K e @ [CHR 0x0A]] \<and>
      map (\<lambda>c. (vMatrix c, hMatrix c))
        (lgycap_init_cfgs (snd (snd (setupFrameCapture K sc fs hnd (initial_statics K))))) =
        [(take 48 default_matrix, drop 48 default_matrix)] \<and>
      fst (setupFrameCapture K sc fs hnd (initial_statics K)) = hnd)"
proof (intro conjI allI impI)
  assume nf: "fs ''gba_scaler_matrix.bin'' = NoFile"
  have rd: "fsQuickRead fs ''gba_scaler_matrix.bin'' buf n = (RES_FR_NO_FILE, buf)" for buf n
    using nf by (simp add: fsQuickRead_def)
  show m: "map (\<lambda>c. (vMatrix c, hMatrix c))
        (lgycap_init_cfgs (snd (snd (setupFrameCapture K sc fs hnd (initial_statics K))))) =
        [(take 48 default_matrix, drop 48 default_matrix)]"
    by (rule unchanged_matrix_cfg) (simp add: rd)
  have "bytes_of_s16s (take 48 default_matrix) @ bytes_of_s16s (drop 48 default_matrix) =
      bytes_of_s16s default_matrix"
    by (simp add: bytes_of_s16s_append [symmetric])
  then show "map (\<lambda>c. bytes_of_s16s (vMatrix c) @ bytes_of_s16s (hMatrix c))
        (lgycap_init_cfgs (snd (snd (setupFrameCapture K sc fs hnd (initial_statics K))))) =
        [bytes_of_s16s default_matrix]"
    using m by (cases "lgycap_init_cfgs (snd (snd (setupFrameCapture K sc fs hnd (initial_statics K))))")
      auto
  show "printed (snd (snd (setupFrameCapture K sc fs hnd (initial_statics K)))) = []"
    by (simp add: printed_setupFrameCapture rd)
next
  fix e
  assume a: "fs ''gba_scaler_matrix.bin'' = ReadFails e \<and> e \<noteq> RES_OK \<and> e \<noteq> RES_FR_NO_FILE"
  then have rd: "fsQuickRead fs ''gba_scaler_matrix.bin'' buf n = (e, buf)" for buf n
    by (simp add: fsQuickRead_ReadFails)
  show "printed (snd (snd (setupFrameCapture K sc fs hnd (initial_statics K)))) =
        [''Failed to load hardware scaling matrix: '' @ result2String K e @ [CHR 0x0A]]"
    using a by (simp add: printed_setupFrameCapture rd)
  show "map (\<lambda>c. (vMatrix c, hMatrix c))
        (lgycap_init_cfgs (snd (snd (setupFrameCapture K sc fs hnd (initial_statics K))))) =
        [(take 48 default_matrix, drop 48 default_matrix)]"
    by (rule unchanged_matrix_cfg) (simp add: rd)
  show "fst (setupFrameCapture K sc fs hnd (initial_statics K)) = hnd"
    by (rule fst_setupFrameCapture)
qed

theorem C7_matrix_defaults_witness:
  "ex_no_files ''gba_scaler_matrix.bin'' = NoFile \<and>
   map (\<lambda>c. (vMatrix c, hMatrix c))
     (lgycap_init_cfgs (snd (snd (setupFrameCapture ex_consts 2 ex_no_files 7
        (initial_statics ex_consts))))) = [(take 48 default_matrix, drop 48 default_matrix)] \<and>
   printed (snd (snd (setupFrameCapture ex_consts 2 ex_no_files 7 (initial_statics ex_consts)))) = [] \<and>
   ex_bad_matrix_file ''gba_scaler_matrix.bin'' = ReadFails (RES_OTHER 8) \<and>
   printed (snd (snd (setupFrameCapture ex_consts 2 ex_bad_matrix_file 7
        (initial_statics ex_consts)))) =
     [''Failed to load hardware scaling matrix: Disk error'' @ [CHR 0x0A]] \<and>
   map (\<lambda>c. (vMatrix c, hMatrix c))
     (lgycap_init_cfgs (snd (snd (setupFrameCapture ex_consts 2 ex_bad_matrix_file 7
        (initial_statics ex_consts))))) = [(take 48 default_matrix, drop 48 default_matrix)]"
proof -
  have a: "ex_no_files ''gba_scaler_matrix.bin'' = NoFile"
    by (simp add: ex_no_files_def)
  have b: "ex_bad_matrix_file ''gba_scaler_matrix.bin'' = ReadFails (RES_OTHER 8)"
    by (simp add: ex_bad_matrix_file_def)
  have r: "result2String ex_consts (RES_OTHER 8) = ''Disk error''"
    by (simp add: ex_consts_def)
  show ?thesis
    using C7_matrix_defaults [of ex_no_files ex_consts 2 7]
      C7_matrix_defaults [of ex_bad_matrix_file ex_consts 2 7] a b r
    by simp
qed


lemma border_reads_append: "border_reads (es @ fs) = border_reads es @ border_reads fs"
  by (induction es rule: border_reads.induct) simp_all

lemma render_buf_transfers_append:
  "render_buf_transfers (es @ fs) = render_buf_transfers es @ render_buf_transfers fs"
  by (induction es rule: render_buf_transfers.induct) simp_all

lemma lgycap_init_cfgs_append:
  "lgycap_init_cfgs (es @ fs) = lgycap_init_cfgs es @ lgycap_init_cfgs fs"
  by (induction es rule: lgycap_init_cfgs.induct) simp_all

lemma lut_writes_unobserved:
  "border_reads (map Write_color_lut_data ws) = []"
  "render_buf_transfers (map Write_color_lut_data ws) = []"
  "lgycap_init_cfgs (map Write_color_lut_data ws) = []"
  by (induction ws) simp_all

lemma setupFrameCapture_no_border:
  "border_reads (snd (snd (setupFrameCapture K sc fs hnd st))) = []"
  "render_buf_transfers (snd (snd (setupFrameCapture K sc fs hnd st))) = []"
  by (simp_all add: setupFrameCapture_def Let_def split_beta border_reads_append
        render_buf_transfers_append)

lemma OAF_videoInit_events:
  "snd (snd (OAF_videoInit K ndebug ops cfg fs model hnd fb st)) =
     (if ndebug
      then Call_GFX_setForceBlack False True
             # (if model \<noteq> SYS_MODEL_2DS K then [Call_GFX_powerOffBacklight GFX_BL_BOT] else [])
      else [])
     @ snd (snd (setupFrameCapture K (scaler cfg) fs hnd st))
     @ [Call_patchGbaGpuCmdList (scaler cfg), Call_createTask 0x800 3 hnd]
     @ map Write_color_lut_data (adjustGammaTableForGba ops cfg)
     @ (if scaler cfg = 0
        then Call_fsQuickRead ''border.bgr'' (400 * 240 * 3)
               # (if fst (fsQuickRead fs ''border.bgr'' fb (400 * 240 * 3)) = RES_OK
                  then [Call_GX_displayTransfer (TopLeftBuf 0) (PPF_DIM 240 400)
                          GPU_RENDER_BUF_ADDR (PPF_DIM 240 400)
                          (PPF_O_FMT K (GX_BGR8 K) OR PPF_I_FMT K (GX_BGR8 K)
                             OR PPF_OUT_TILED K),
                        Call_GFX_waitForPPF]
                  else [])
        else [])"
  by (simp add: OAF_videoInit_def Let_def split_beta fst_setupFrameCapture)

lemma border_reads_OAF_videoInit:
  "border_reads (snd (snd (OAF_videoInit K ndebug ops cfg fs model hnd fb st))) =
     (if scaler cfg = 0 then [400 * 240 * 3] else [])"
  by (simp add: OAF_videoInit_events border_reads_append lut_writes_unobserved
        setupFrameCapture_no_border)

lemma render_buf_transfers_OAF_videoInit:
  "render_buf_transfers (snd (snd (OAF_videoInit K ndebug ops cfg fs model hnd fb st))) =
     (if scaler cfg = 0 \<and> fst (fsQuickRead fs ''border.bgr'' fb (400 * 240 * 3)) = RES_OK
      then [PPF_O_FMT K (GX_BGR8 K) OR PPF_I_FMT K (GX_BGR8 K) OR PPF_OUT_TILED K]
      else [])"
  by (simp add: OAF_videoInit_events render_buf_transfers_append lut_writes_unobserved
        setupFrameCapture_no_border)

lemma lgycap_init_cfgs_OAF_videoInit:
  "lgycap_init_cfgs (snd (snd (OAF_videoInit K ndebug ops cfg fs model hnd fb st))) =
     lgycap_init_cfgs (snd (snd (setupFrameCapture K (scaler cfg) fs hnd st)))"
  by (simp add: OAF_videoInit_events lgycap_init_cfgs_append lut_writes_unobserved)

lemma tiled_flag_set:
  fixes a b c :: u32
  shows "(a OR b OR c) AND c = c"
  by (auto intro!: bit_eqI simp: bit_simps)

lemma fsQuickRead_FileBytes:
  "fs path = FileBytes bs \<Longrightarrow> fst (fsQuickRead fs path buf n) = RES_OK"
  by (simp add: fsQuickRead_def)

text \<open>
  Claim C8, as the code has it. At startup the border image is read exactly when the
  scaler mode is 0 (one read of \<open>400*240*3\<close> bytes), and never in any other mode, mode 1
  included. When the mode is 0 and the read returns \<open>RES_OK\<close> there is exactly one transfer
  into the GPU render buffer, and its flags contain \<open>PPF_OUT_TILED\<close>; otherwise there is
  none.
\<close>

theorem C8_border_only_in_mode_0:
  "border_reads (snd (snd (OAF_videoInit K ndebug ops cfg fs model hnd fb st))) =
     (if scaler cfg = 0 then [400 * 240 * 3] else []) \<and>
   render_buf_transfers (snd (snd (OAF_videoInit K ndebug ops cfg fs model hnd fb st))) =
     (if scaler cfg = 0 \<and> fst (fsQuickRead fs ''border.bgr'' fb (400 * 240 * 3)) = RES_OK
      then [PPF_O_FMT K (GX_BGR8 K) OR PPF_I_FMT K (GX_BGR8 K) OR PPF_OUT_TILED K]
      else []) \<and>
   (PPF_O_FMT K (GX_BGR8 K) OR PPF_I_FMT K (GX_BGR8 K) OR PPF_OUT_TILED K) AND PPF_OUT_TILED K =
     PPF_OUT_TILED K"
  by (simp only: border_reads_OAF_videoInit render_buf_transfers_OAF_videoInit tiled_flag_set
        simp_thms)

theorem C8_border_only_in_mode_0_witness:
  "border_reads (snd (snd (OAF_videoInit ex_consts True ex_float_ops (ex_cfg 0) ex_border_file
      0 7 [] (initial_statics ex_consts)))) = [288000] \<and>
   render_buf_transfers (snd (snd (OAF_videoInit ex_consts True ex_float_ops (ex_cfg 0)
      ex_border_file 0 7 [] (initial_statics ex_consts)))) = [0x1102] \<and>
   render_buf_transfers (snd (snd (OAF_videoInit ex_consts True ex_float_ops (ex_cfg 0)
      ex_no_files 0 7 [] (initial_statics ex_consts)))) = [] \<and>
   border_reads (snd (snd (OAF_videoInit ex_consts True ex_float_ops (ex_cfg 2) ex_border_file
      0 7 [] (initial_statics ex_consts)))) = [] \<and>
   render_buf_transfers (snd (snd (OAF_videoInit ex_consts True ex_float_ops (ex_cfg 2)
      ex_border_file 0 7 [] (initial_statics ex_consts)))) = []"
proof -
  have p: "fst (fsQuickRead ex_border_file ''border.bgr'' [] 288000) = RES_OK"
    by (rule fsQuickRead_FileBytes [where bs = "[1, 2, 3]"]) (simp add: ex_border_file_def)
  have q: "fst (fsQuickRead ex_no_files ''border.bgr'' [] 288000) = RES_FR_NO_FILE"
    by (simp add: fsQuickRead_def ex_no_files_def)
  have sc: "scaler (ex_cfg 0) = 0" "scaler (ex_cfg 2) = 2" by (simp_all add: ex_cfg_def)
  have fl: "PPF_O_FMT ex_consts (GX_BGR8 ex_consts) OR PPF_I_FMT ex_consts (GX_BGR8 ex_consts)
      OR PPF_OUT_TILED ex_consts = 0x1102"
    by (simp add: ex_consts_def)
  show ?thesis
    using
      C8_border_only_in_mode_0 [of ex_consts True ex_float_ops "ex_cfg 0" ex_border_file 0 7 "[]"
        "initial_statics ex_consts"]
      C8_border_only_in_mode_0 [of ex_consts True ex_float_ops "ex_cfg 0" ex_no_files 0 7 "[]"
        "initial_statics ex_consts"]
      C8_border_only_in_mode_0 [of ex_consts True ex_float_ops "ex_cfg 2" ex_border_file 0 7 "[]"
        "initial_statics ex_consts"]
    by (simp add: p q sc fl)
qed

text \<open>
  Claim C8 as stated fails in scaler mode 1: the capture geometry is the native 240 by
  160 and the border file is present and readable, yet the startup neither reads it nor
  transfers anything into the GPU render buffer.
\<close>

theorem C8_native_mode_1_counterexample:
  "map (\<lambda>c. (w c, h c))
     (lgycap_init_cfgs (snd (snd (OAF_videoInit ex_consts True ex_float_ops (ex_cfg 1)
        ex_border_file 0 7 [] (initial_statics ex_consts))))) = [(240, 160)] \<and>
   fst (fsQuickRead ex_border_file ''border.bgr'' [] (400 * 240 * 3)) = RES_OK \<and>
   border_reads (snd (snd (OAF_videoInit ex_consts True ex_float_ops (ex_cfg 1) ex_border_file
      0 7 [] (initial_statics ex_consts)))) = [] \<and>
   render_buf_transfers (snd (snd (OAF_videoInit ex_consts True ex_float_ops (ex_cfg 1)
      ex_border_file 0 7 [] (initial_statics ex_consts)))) = []"
proof -
  have p: "fst (fsQuickRead ex_border_file ''border.bgr'' [] 288000) = RES_OK"
    by (rule fsQuickRead_FileBytes [where bs = "[1, 2, 3]"]) (simp add: ex_border_file_def)
  have sc: "scaler (ex_cfg 1) = 1" by (simp add: ex_cfg_def)
  show ?thesis
    by (simp add: p sc lgycap_init_cfgs_OAF_videoInit setupFrameCapture_cfgs
          border_reads_OAF_videoInit render_buf_transfers_OAF_videoInit)
qed

end
